theory Spec2Isabelle
  imports Complex_Main "HOL-Library.Multiset"
begin

section \<open>Values, exceptions and numpy arrays\<close>

text \<open>
  The module \<^verbatim>\<open>gammafit/sherpamod.py\<close> works on one-dimensional numpy arrays of
  floats.  An array is modelled as a \<^typ>\<open>real list\<close>: rounding and overflow of IEEE
  doubles are outside the model, and so are infinities and NaN but for the one division
  whose divisor can be zero.  Every exception the code can raise is a value of
  \<open>error\<close>, and a fallible computation returns \<open>error + 'a\<close>, with \<open>Inl\<close> the
  exception.
\<close>

datatype error =
    IndexError        \<comment> \<open>index out of bounds, as \<^verbatim>\<open>xhi[-1]\<close> on an empty array\<close>
  | ValueError        \<comment> \<open>operands that cannot be broadcast together, wrong unpack count\<close>
  | ParameterErr      \<comment> \<open>the fitting framework refuses a parameter value outside its bounds\<close>
  | NonFinite         \<comment> \<open>no exception: a float result is NaN, which no real number models\<close>
  | OZMError          \<comment> \<open>any exception of the one-zone emission library\<close>

definition and_then :: "error + 'a \<Rightarrow> ('a \<Rightarrow> error + 'b) \<Rightarrow> error + 'b" where
  "and_then r f = (case r of Inl e \<Rightarrow> Inl e | Inr x \<Rightarrow> f x)"

text \<open>
  An elementwise binary operator of numpy on two 1-D arrays: equal sizes combine
  pointwise, an array of size one is broadcast against the other, and any other pair of
  sizes raises \<^verbatim>\<open>ValueError\<close>.
\<close>

definition np_binop :: "(real \<Rightarrow> real \<Rightarrow> real) \<Rightarrow> real list \<Rightarrow> real list \<Rightarrow> error + real list" where
  "np_binop f a b =
     (if length a = length b then Inr (map2 f a b)
      else if length a = 1 then Inr (map (f (hd a)) b)
      else if length b = 1 then Inr (map (\<lambda>x. f x (hd b)) a)
      else Inl ValueError)"

text \<open>An array combined with a Python scalar: \<^verbatim>\<open>a*1e3\<close>, \<^verbatim>\<open>a/2.\<close>.\<close>

definition np_scale :: "real list \<Rightarrow> real \<Rightarrow> real list" where
  "np_scale a c = map (\<lambda>v. v * c) a"

definition np_halve :: "real list \<Rightarrow> real list" where
  "np_halve a = map (\<lambda>v. v / 2) a"

text \<open>
  \<^verbatim>\<open>np.trapz(y, x)\<close> is \<^verbatim>\<open>(d * (y[1:] + y[:-1]) / 2.0).sum()\<close> with
  \<^verbatim>\<open>d = diff(x)\<close>; the slices \<^verbatim>\<open>a[1:]\<close> and \<^verbatim>\<open>a[:-1]\<close> are \<open>drop 1 a\<close> and
  \<open>butlast a\<close>, both empty on an empty array.
\<close>

definition np_diff :: "real list \<Rightarrow> real list" where
  "np_diff x = map2 (-) (drop 1 x) (butlast x)"

definition np_trapz :: "real list \<Rightarrow> real list \<Rightarrow> error + real" where
  "np_trapz y x =
     and_then (np_binop (+) (drop 1 y) (butlast y)) (\<lambda>s.
     and_then (np_binop (*) (np_diff x) s) (\<lambda>t.
     Inr (sum_list (np_halve t))))"

section \<open>The grid merger\<close>

text \<open>
  \<^verbatim>\<open>_mergex(xlo, xhi, midpoints=False)\<close>, statement by statement: a zero array of
  \<open>N + 1\<close> entries, its first \<open>N\<close> slots overwritten by \<^verbatim>\<open>xlo\<close>, its last slot by
  \<^verbatim>\<open>xhi[-1]\<close> (an \<^verbatim>\<open>IndexError\<close> when \<^verbatim>\<open>xhi\<close> is empty); with the flag set, the
  midpoints \<^verbatim>\<open>(xlo+xhi)/2.\<close> are appended and the array is sorted in place.
\<close>

definition mergex :: "real list \<Rightarrow> real list \<Rightarrow> bool \<Rightarrow> error + real list" where
  "mergex xlo xhi midpoints =
     (let N = length xlo;
          x0 = replicate (N + 1) 0;
          x1 = xlo @ drop N x0
      in if xhi = [] then Inl IndexError
         else
           let x2 = x1[length x1 - 1 := last xhi]
           in if midpoints
              then and_then (np_binop (+) xlo xhi) (\<lambda>s.
                     Inr (sort (x2 @ np_halve s)))
              else Inr x2)"

section \<open>Parameters and model instances of the fitting framework\<close>

text \<open>
  \<^verbatim>\<open>Parameter\<close> and \<^verbatim>\<open>ArithmeticModel\<close> belong to the fitting framework (sherpa),
  which the module imports.  A parameter is modelled by the attributes the module sets
  and reads: its value, its soft bounds and its frozen flag.  The bounds default to
  \<open>\<mp> hugeval\<close>, the framework's largest float.  \<^verbatim>\<open>Parameter.set(v)\<close> stores \<open>v\<close> as the
  value after the framework's range check, which raises \<^verbatim>\<open>ParameterErr\<close> for a value
  below the minimum or above the maximum.  The value handed to it is the float result
  of a division: finite, an infinity (beyond every bound, so refused), or NaN (which
  compares false with both bounds and is stored; the model ends there with
  \<open>NonFinite\<close>).
\<close>

datatype pyfloat = Finite real | Infinite | NaN

definition float_div :: "real \<Rightarrow> real \<Rightarrow> pyfloat" where
  "float_div a b = (if b \<noteq> 0 then Finite (a / b) else if a = 0 then NaN else Infinite)"

record parameter =
  modelname :: string
  pname :: string
  val :: real
  pmin :: real
  pmax :: real
  frozen :: bool

definition hugeval :: real where
  "hugeval = 34028234663852886 * 10 ^ 22"

definition Parameter :: "string \<Rightarrow> string \<Rightarrow> real \<Rightarrow> real option \<Rightarrow> real option \<Rightarrow> bool \<Rightarrow> parameter" where
  "Parameter mname nm v mn mx frz =
     \<lparr>modelname = mname, pname = nm, val = v,
      pmin = (case mn of None \<Rightarrow> - hugeval | Some l \<Rightarrow> l),
      pmax = (case mx of None \<Rightarrow> hugeval | Some u \<Rightarrow> u),
      frozen = frz\<rparr>"

definition Parameter_set :: "parameter \<Rightarrow> pyfloat \<Rightarrow> error + parameter" where
  "Parameter_set par v =
     (case v of
        Finite r \<Rightarrow>
          if r < pmin par then Inl ParameterErr
          else if pmax par < r then Inl ParameterErr
          else Inr (par\<lparr>val := r\<rparr>)
      | Infinite \<Rightarrow> Inl ParameterErr
      | NaN \<Rightarrow> Inl NonFinite)"

text \<open>
  An instance of \<^verbatim>\<open>InverseCompton\<close> or \<^verbatim>\<open>PionDecay\<close> holds what \<^verbatim>\<open>__init__\<close>
  assigns: five parameters, \<^verbatim>\<open>_use_caching\<close> and \<^verbatim>\<open>cache\<close>.  A \<^verbatim>\<open>Synchrotron\<close>
  instance has the magnetic field \<^verbatim>\<open>B\<close> as a sixth parameter.  Every instance also
  holds the result store of the framework's \<^verbatim>\<open>modelCacher1d\<close> decorator, which
  \<^verbatim>\<open>ArithmeticModel.__init__\<close> creates: the dictionary \<^verbatim>\<open>_cache\<close> from digests to
  result arrays and the list \<^verbatim>\<open>_queue\<close> of the digests in the order they were stored,
  which starts as the one placeholder \<^verbatim>\<open>''\<close> (here \<open>None\<close>).  A digest is the hash of
  the bytes of the parameter vector followed by the bytes of \<^verbatim>\<open>xlo\<close> and of \<^verbatim>\<open>xhi\<close>,
  joined with nothing between the two edge arrays: it is modelled by the parameter
  vector and the concatenation of the edges, and collisions of the hash are outside
  the model.
\<close>

type_synonym digest = "real list \<times> real list"

record arith_model =
  model_name :: string
  par_index :: parameter
  par_ref :: parameter
  par_ampl :: parameter
  par_cutoff :: parameter
  par_beta :: parameter
  use_caching :: bool
  cache :: int
  cache_queue :: "digest option list"
  cache_store :: "(digest \<times> real list) list"

record synchrotron = arith_model +
  par_B :: parameter

definition InverseCompton_init :: "string \<Rightarrow> arith_model" where
  "InverseCompton_init nm =
     \<lparr>model_name = nm,
      par_index = Parameter nm ''index'' 2 (Some (- 10)) (Some 10) False,
      par_ref = Parameter nm ''ref'' 20 (Some 0) None True,
      par_ampl = Parameter nm ''ampl'' 1 (Some 0) None False,
      par_cutoff = Parameter nm ''cutoff'' (10 ^ 15) (Some 0) None True,
      par_beta = Parameter nm ''beta'' 1 (Some 0) (Some 10) True,
      use_caching = True,
      cache = 10,
      cache_queue = [None],
      cache_store = []\<rparr>"

definition Synchrotron_init :: "string \<Rightarrow> synchrotron" where
  "Synchrotron_init nm =
     \<lparr>model_name = nm,
      par_index = Parameter nm ''index'' 2 (Some (- 10)) (Some 10) False,
      par_ref = Parameter nm ''ref'' 20 (Some 0) None True,
      par_ampl = Parameter nm ''ampl'' 1 (Some 0) None False,
      par_cutoff = Parameter nm ''cutoff'' (10 ^ 15) (Some 0) None True,
      par_beta = Parameter nm ''beta'' 1 (Some 0) (Some 10) True,
      use_caching = True,
      cache = 10,
      cache_queue = [None],
      cache_store = [],
      par_B = Parameter nm ''B'' 1 (Some 0) (Some 10) True\<rparr>"

definition PionDecay_init :: "string \<Rightarrow> arith_model" where
  "PionDecay_init nm =
     \<lparr>model_name = nm,
      par_index = Parameter nm ''index'' (21 / 10) (Some (- 10)) (Some 10) False,
      par_ref = Parameter nm ''ref'' 60 (Some 0) None True,
      par_ampl = Parameter nm ''ampl'' 100 (Some 0) None False,
      par_cutoff = Parameter nm ''cutoff'' 0 (Some 0) None True,
      par_beta = Parameter nm ''beta'' 1 (Some 0) (Some 10) True,
      use_caching = True,
      cache = 10,
      cache_queue = [None],
      cache_store = []\<rparr>"

text \<open>\<^verbatim>\<open>self.pars\<close>: the tuple handed to \<^verbatim>\<open>ArithmeticModel.__init__\<close>.\<close>

definition pars :: "'a arith_model_scheme \<Rightarrow> parameter list" where
  "pars self = [par_index self, par_ref self, par_ampl self, par_cutoff self, par_beta self]"

definition Synchrotron_pars :: "'a synchrotron_scheme \<Rightarrow> parameter list" where
  "Synchrotron_pars self =
     [par_index self, par_ref self, par_ampl self, par_cutoff self, par_beta self, par_B self]"

section \<open>The one-zone emission library and the trace of effects\<close>

text \<open>
  \<^verbatim>\<open>ElectronOZM\<close> and \<^verbatim>\<open>ProtonOZM\<close> come from the module \<^verbatim>\<open>onezone\<close>, whose code
  is not among the sources: the library is a parameter of the model.  \<open>ozm_args\<close> are
  the arguments of one constructor call: the two positional ones (the energy grid and
  the amplitude) and the keywords, \<open>None\<close> standing for a keyword that is not passed
  and, for \<^verbatim>\<open>cutoff\<close>, for the Python value \<^verbatim>\<open>None\<close>.  A field of \<open>onezone\<close> gives the
  spectrum read after the computation (\<^verbatim>\<open>calc_ic(); specic\<close>, \<^verbatim>\<open>calc_sy(); specsy\<close>,
  \<^verbatim>\<open>calc_outspec(); specpp\<close>) on an evaluator built from the arguments, or the
  exception raised on the way.
\<close>

record ozm_args =
  arg_outspec :: "real list"
  arg_norm :: real
  arg_index :: real
  arg_norm_energy :: real
  arg_cutoff :: "real option"
  arg_beta :: real
  arg_B :: "real option"
  arg_seedspec :: "string list"
  arg_nolog :: bool
  arg_gmin :: "real option"
  arg_gmax :: "real option"
  arg_ngamd :: "nat option"
  arg_Etrans :: "real option"

record onezone =
  specic :: "ozm_args \<Rightarrow> error + real list"
  specsy :: "ozm_args \<Rightarrow> error + real list"
  specpp :: "ozm_args \<Rightarrow> error + real list"

text \<open>
  What a call does besides returning: it builds evaluators and writes to standard
  output.  The trace lists these events in order.  A Python 2 \<^verbatim>\<open>print a, b\<close> writes
  each item as soon as it is evaluated, so a failing item leaves the earlier ones
  written.
\<close>

datatype item = PFloat real | PInt nat | PList "real list"

datatype event =
    New_ElectronOZM ozm_args
  | New_ProtonOZM ozm_args
  | Print_item item
  | Print_newline

type_synonym 'a io = "(error + 'a) \<times> event list"

definition io_return :: "'a \<Rightarrow> 'a io" where
  "io_return x = (Inr x, [])"

definition io_lift :: "error + 'a \<Rightarrow> 'a io" where
  "io_lift r = (r, [])"

definition io_emit :: "event \<Rightarrow> unit io" where
  "io_emit ev = (Inr (), [ev])"

definition io_bind :: "'a io \<Rightarrow> ('a \<Rightarrow> 'b io) \<Rightarrow> 'b io" where
  "io_bind m f =
     (case fst m of
        Inl e \<Rightarrow> (Inl e, snd m)
      | Inr x \<Rightarrow> (fst (f x), snd m @ snd (f x)))"

definition ElectronOZM_calc_ic :: "onezone \<Rightarrow> ozm_args \<Rightarrow> (real list) io" where
  "ElectronOZM_calc_ic oz a = (specic oz a, [New_ElectronOZM a])"

definition ElectronOZM_calc_sy :: "onezone \<Rightarrow> ozm_args \<Rightarrow> (real list) io" where
  "ElectronOZM_calc_sy oz a = (specsy oz a, [New_ElectronOZM a])"

definition ProtonOZM_calc_outspec :: "onezone \<Rightarrow> ozm_args \<Rightarrow> (real list) io" where
  "ProtonOZM_calc_outspec oz a = (specpp oz a, [New_ProtonOZM a])"

section \<open>The model adapters\<close>

text \<open>Unpacking the parameter vector: \<^verbatim>\<open>ValueError\<close> on any other number of entries.\<close>

fun unpack5 :: "real list \<Rightarrow> error + (real \<times> real \<times> real \<times> real \<times> real)" where
  "unpack5 [a, b, c, d, e] = Inr (a, b, c, d, e)"
| "unpack5 _ = Inl ValueError"

fun unpack6 :: "real list \<Rightarrow> error + (real \<times> real \<times> real \<times> real \<times> real \<times> real)" where
  "unpack6 [a, b, c, d, e, f] = Inr (a, b, c, d, e, f)"
| "unpack6 _ = Inl ValueError"

fun np_min :: "real list \<Rightarrow> error + real" where
  "np_min [] = Inl ValueError"
| "np_min (x # xs) = Inr (fold min xs x)"

fun np_max :: "real list \<Rightarrow> error + real" where
  "np_max [] = Inl ValueError"
| "np_max (x # xs) = Inr (fold max xs x)"

text \<open>
  The three \<^verbatim>\<open>calc\<close> methods end in the same two statements, named once here.
  \<^verbatim>\<open>photons=(outspec[1:]-outspec[:-1])*((model[1:]+model[:-1])/2.)\<close>:
\<close>

definition photons_per_bin :: "real list \<Rightarrow> real list \<Rightarrow> error + real list" where
  "photons_per_bin outspec model =
     and_then (np_binop (-) (drop 1 outspec) (butlast outspec)) (\<lambda>width.
     and_then (np_binop (+) (drop 1 model) (butlast model)) (\<lambda>s.
     np_binop (*) width (np_halve s)))"

text \<open>
  \<^verbatim>\<open>print outspec.min(), outspec.max(), len(outspec), p,
  np.trapz((outspec*1.60217656e-12)*model, outspec)\<close>:
\<close>

definition diagnostic_print :: "real list \<Rightarrow> real list \<Rightarrow> real list \<Rightarrow> unit io" where
  "diagnostic_print outspec p model =
     io_bind (io_lift (np_min outspec)) (\<lambda>lo.
     io_bind (io_emit (Print_item (PFloat lo))) (\<lambda>_.
     io_bind (io_lift (np_max outspec)) (\<lambda>hi.
     io_bind (io_emit (Print_item (PFloat hi))) (\<lambda>_.
     io_bind (io_emit (Print_item (PInt (length outspec)))) (\<lambda>_.
     io_bind (io_emit (Print_item (PList p))) (\<lambda>_.
     io_bind (io_lift
        (and_then (np_binop (*) (np_scale outspec (160217656 / 10 ^ 20)) model) (\<lambda>y.
         np_trapz y outspec))) (\<lambda>flux.
     io_bind (io_emit (Print_item (PFloat flux))) (\<lambda>_.
     io_emit Print_newline))))))))"

text \<open>
  \<^verbatim>\<open>InverseCompton.calc(self, p, xlo, xhi)\<close>.  The instance is an argument the
  body never reads.  \<^verbatim>\<open>del ozm\<close> has no effect the model can see.  This is the body
  of the method; the framework's \<^verbatim>\<open>modelCacher1d\<close> wrapper around it, which may answer
  a repeated call from the result store without running the body, follows below.
\<close>

definition InverseCompton_calc ::
  "onezone \<Rightarrow> 'a arith_model_scheme \<Rightarrow> real list \<Rightarrow> real list \<Rightarrow> real list \<Rightarrow> (real list) io" where
  "InverseCompton_calc oz self p xlo xhi =
     io_bind (io_lift (unpack5 p)) (\<lambda>(index, ref, ampl, cutoff, beta).
     io_bind (io_lift (mergex xlo xhi False)) (\<lambda>x.
     let outspec = np_scale x 1000 in
     io_bind (ElectronOZM_calc_ic oz
        \<lparr>arg_outspec = outspec, arg_norm = ampl, arg_index = index,
         arg_norm_energy = ref * 10 ^ 12, arg_cutoff = Some (cutoff * 10 ^ 12),
         arg_beta = beta, arg_B = None, arg_seedspec = [''CMB''], arg_nolog = True,
         arg_gmin = Some (10 ^ 5), arg_gmax = Some (10 ^ 10), arg_ngamd = Some 30,
         arg_Etrans = None\<rparr>) (\<lambda>model.
     io_bind (io_lift (photons_per_bin outspec model)) (\<lambda>photons.
     io_bind (diagnostic_print outspec p model) (\<lambda>_.
     io_return photons)))))"

definition Synchrotron_calc ::
  "onezone \<Rightarrow> 'a synchrotron_scheme \<Rightarrow> real list \<Rightarrow> real list \<Rightarrow> real list \<Rightarrow> (real list) io" where
  "Synchrotron_calc oz self p xlo xhi =
     io_bind (io_lift (unpack6 p)) (\<lambda>(index, ref, ampl, cutoff, beta, B).
     io_bind (io_lift (mergex xlo xhi False)) (\<lambda>x.
     let outspec = np_scale x 1000 in
     io_bind (ElectronOZM_calc_sy oz
        \<lparr>arg_outspec = outspec, arg_norm = ampl, arg_index = index,
         arg_norm_energy = ref * 10 ^ 12, arg_cutoff = Some (cutoff * 10 ^ 12),
         arg_beta = beta, arg_B = Some B, arg_seedspec = [''CMB''], arg_nolog = True,
         arg_gmin = Some (10 ^ 5), arg_gmax = Some (10 ^ 10), arg_ngamd = Some 30,
         arg_Etrans = None\<rparr>) (\<lambda>model.
     io_bind (io_lift (photons_per_bin outspec model)) (\<lambda>photons.
     io_bind (diagnostic_print outspec p model) (\<lambda>_.
     io_return photons)))))"

text \<open>
  \<^verbatim>\<open>PionDecay.calc\<close> first replaces a cutoff equal to zero by \<^verbatim>\<open>None\<close> and
  multiplies any other cutoff by \<^verbatim>\<open>1e12\<close>.
\<close>

definition PionDecay_calc ::
  "onezone \<Rightarrow> 'a arith_model_scheme \<Rightarrow> real list \<Rightarrow> real list \<Rightarrow> real list \<Rightarrow> (real list) io" where
  "PionDecay_calc oz self p xlo xhi =
     io_bind (io_lift (unpack5 p)) (\<lambda>(index, ref, ampl, cutoff, beta).
     let cutoff' = (if cutoff = 0 then None else Some (cutoff * 10 ^ 12)) in
     io_bind (io_lift (mergex xlo xhi False)) (\<lambda>x.
     let outspec = np_scale x 1000 in
     io_bind (ProtonOZM_calc_outspec oz
        \<lparr>arg_outspec = outspec, arg_norm = ampl, arg_index = index,
         arg_norm_energy = ref * 10 ^ 12, arg_cutoff = cutoff',
         arg_beta = beta, arg_B = None, arg_seedspec = [''CMB''], arg_nolog = True,
         arg_gmin = None, arg_gmax = None, arg_ngamd = None,
         arg_Etrans = Some (10 ^ 10)\<rparr>) (\<lambda>model.
     io_bind (io_lift (photons_per_bin outspec model)) (\<lambda>photons.
     io_bind (diagnostic_print outspec p model) (\<lambda>_.
     io_return photons)))))"

text \<open>
  The three \<^verbatim>\<open>guess\<close> methods share their last three statements: the two
  trapezoidal integrals over \<^verbatim>\<open>xlo\<close> and the call of \<^verbatim>\<open>self.ampl.set\<close>.  The
  division of numpy floats raises nothing when the model integral is zero.
\<close>

definition rescale_ampl ::
  "parameter \<Rightarrow> real list \<Rightarrow> real list \<Rightarrow> real list \<Rightarrow> real list \<Rightarrow> error + parameter" where
  "rescale_ampl ampl model dep xlo xhi =
     and_then (np_trapz model xlo) (\<lambda>modflux.
     and_then (np_binop (-) xhi xlo) (\<lambda>width.
     and_then (np_binop (*) dep width) (\<lambda>y.
     and_then (np_trapz y xlo) (\<lambda>obsflux.
     Parameter_set ampl (float_div (val ampl * obsflux) modflux)))))"

text \<open>
  \<^verbatim>\<open>guess(self, dep, xlo, xhi)\<close> returns \<^verbatim>\<open>None\<close>; its result here is the outcome
  (an exception or \<open>()\<close>), the instance afterwards and the trace.  The assignment to
  the amplitude is the last statement, so a call that raises leaves the instance as
  it was.  With the outcome \<open>NonFinite\<close> the code has stored a NaN as the amplitude,
  and the instance the model returns says nothing about that value.  In these three
  definitions \<^verbatim>\<open>self.calc\<close> is the body of \<^verbatim>\<open>calc\<close>, as on a call that the result
  store cannot answer, and the store is left alone; the methods with the wrapper and
  the store follow below.
\<close>

definition InverseCompton_guess ::
  "onezone \<Rightarrow> arith_model \<Rightarrow> real list \<Rightarrow> real list \<Rightarrow> real list
   \<Rightarrow> (error + unit) \<times> arith_model \<times> event list" where
  "InverseCompton_guess oz self dep xlo xhi =
     (let r = InverseCompton_calc oz self (map val (pars self)) xlo xhi in
      case and_then (fst r) (\<lambda>model. rescale_ampl (par_ampl self) model dep xlo xhi) of
        Inl e \<Rightarrow> (Inl e, self, snd r)
      | Inr a \<Rightarrow> (Inr (), self\<lparr>par_ampl := a\<rparr>, snd r))"

definition Synchrotron_guess ::
  "onezone \<Rightarrow> synchrotron \<Rightarrow> real list \<Rightarrow> real list \<Rightarrow> real list
   \<Rightarrow> (error + unit) \<times> synchrotron \<times> event list" where
  "Synchrotron_guess oz self dep xlo xhi =
     (let r = Synchrotron_calc oz self (map val (Synchrotron_pars self)) xlo xhi in
      case and_then (fst r) (\<lambda>model. rescale_ampl (par_ampl self) model dep xlo xhi) of
        Inl e \<Rightarrow> (Inl e, self, snd r)
      | Inr a \<Rightarrow> (Inr (), self\<lparr>par_ampl := a\<rparr>, snd r))"

definition PionDecay_guess ::
  "onezone \<Rightarrow> arith_model \<Rightarrow> real list \<Rightarrow> real list \<Rightarrow> real list
   \<Rightarrow> (error + unit) \<times> arith_model \<times> event list" where
  "PionDecay_guess oz self dep xlo xhi =
     (let r = PionDecay_calc oz self (map val (pars self)) xlo xhi in
      case and_then (fst r) (\<lambda>model. rescale_ampl (par_ampl self) model dep xlo xhi) of
        Inl e \<Rightarrow> (Inl e, self, snd r)
      | Inr a \<Rightarrow> (Inr (), self\<lparr>par_ampl := a\<rparr>, snd r))"

text \<open>The components of what a \<^verbatim>\<open>guess\<close> call leaves behind.\<close>

definition outcome :: "'a \<times> 'b \<times> 'c \<Rightarrow> 'a" where
  "outcome r = fst r"

definition instance_after :: "'a \<times> 'b \<times> 'c \<Rightarrow> 'b" where
  "instance_after r = fst (snd r)"

section \<open>The result store of the framework\<close>

text \<open>
  \<^verbatim>\<open>cache.pop(key, None)\<close> and \<^verbatim>\<open>cache[digest] = vals\<close> on the dictionary, kept as an
  association list with \<open>map_of\<close> for the lookup.
\<close>

definition dict_pop :: "digest option \<Rightarrow> (digest \<times> real list) list \<Rightarrow> (digest \<times> real list) list" where
  "dict_pop key d = (case key of None \<Rightarrow> d | Some k \<Rightarrow> filter (\<lambda>kv. fst kv \<noteq> k) d)"

definition dict_set :: "digest \<Rightarrow> real list \<Rightarrow> (digest \<times> real list) list \<Rightarrow> (digest \<times> real list) list" where
  "dict_set k v d = (k, v) # filter (\<lambda>kv. fst kv \<noteq> k) d"

text \<open>
  \<^verbatim>\<open>modelCacher1d(func)\<close>, the wrapper that the decorator puts around each \<^verbatim>\<open>calc\<close>.
  With \<^verbatim>\<open>_use_caching\<close> set, a digest found in the store is answered by the stored
  array and the body does not run.  Otherwise the body runs; an exception of the body
  passes through; a result is returned after, with \<^verbatim>\<open>_use_caching\<close> set, the oldest
  digest of the queue has been popped and dropped from the store (an \<^verbatim>\<open>IndexError\<close> on
  an empty queue) and the new digest appended and stored.
\<close>

definition modelCacher1d ::
  "('a arith_model_scheme \<Rightarrow> real list \<Rightarrow> real list \<Rightarrow> real list \<Rightarrow> (real list) io)
   \<Rightarrow> 'a arith_model_scheme \<Rightarrow> real list \<Rightarrow> real list \<Rightarrow> real list
   \<Rightarrow> (error + real list) \<times> 'a arith_model_scheme \<times> event list" where
  "modelCacher1d func self p xlo xhi =
     (let digest = (p, xlo @ xhi) in
      case (if use_caching self then map_of (cache_store self) digest else None) of
        Some vals \<Rightarrow> (Inr vals, self, [])
      | None \<Rightarrow>
          (case fst (func self p xlo xhi) of
             Inl e \<Rightarrow> (Inl e, self, snd (func self p xlo xhi))
           | Inr vals \<Rightarrow>
               if use_caching self
               then (case cache_queue self of
                       [] \<Rightarrow> (Inl IndexError, self, snd (func self p xlo xhi))
                     | key # queue \<Rightarrow>
                         (Inr vals,
                          self\<lparr>cache_queue := queue @ [Some digest],
                               cache_store := dict_set digest vals (dict_pop key (cache_store self))\<rparr>,
                          snd (func self p xlo xhi)))
               else (Inr vals, self, snd (func self p xlo xhi))))"

text \<open>The method \<^verbatim>\<open>calc\<close> of each class as the decorator leaves it.\<close>

definition InverseCompton_calc_cached ::
  "onezone \<Rightarrow> arith_model \<Rightarrow> real list \<Rightarrow> real list \<Rightarrow> real list
   \<Rightarrow> (error + real list) \<times> arith_model \<times> event list" where
  "InverseCompton_calc_cached oz = modelCacher1d (InverseCompton_calc oz)"

definition Synchrotron_calc_cached ::
  "onezone \<Rightarrow> synchrotron \<Rightarrow> real list \<Rightarrow> real list \<Rightarrow> real list
   \<Rightarrow> (error + real list) \<times> synchrotron \<times> event list" where
  "Synchrotron_calc_cached oz = modelCacher1d (Synchrotron_calc oz)"

definition PionDecay_calc_cached ::
  "onezone \<Rightarrow> arith_model \<Rightarrow> real list \<Rightarrow> real list \<Rightarrow> real list
   \<Rightarrow> (error + real list) \<times> arith_model \<times> event list" where
  "PionDecay_calc_cached oz = modelCacher1d (PionDecay_calc oz)"

text \<open>
  \<^verbatim>\<open>guess\<close> with \<^verbatim>\<open>self.calc\<close> the wrapped method: the store is updated by the call
  of \<^verbatim>\<open>calc\<close>, before the amplitude is set, and stays updated when setting it raises.
\<close>

definition InverseCompton_guess_cached ::
  "onezone \<Rightarrow> arith_model \<Rightarrow> real list \<Rightarrow> real list \<Rightarrow> real list
   \<Rightarrow> (error + unit) \<times> arith_model \<times> event list" where
  "InverseCompton_guess_cached oz self dep xlo xhi =
     (let r = InverseCompton_calc_cached oz self (map val (pars self)) xlo xhi;
          self1 = fst (snd r)
      in case and_then (fst r) (\<lambda>model. rescale_ampl (par_ampl self1) model dep xlo xhi) of
           Inl e \<Rightarrow> (Inl e, self1, snd (snd r))
         | Inr a \<Rightarrow> (Inr (), self1\<lparr>par_ampl := a\<rparr>, snd (snd r)))"

definition Synchrotron_guess_cached ::
  "onezone \<Rightarrow> synchrotron \<Rightarrow> real list \<Rightarrow> real list \<Rightarrow> real list
   \<Rightarrow> (error + unit) \<times> synchrotron \<times> event list" where
  "Synchrotron_guess_cached oz self dep xlo xhi =
     (let r = Synchrotron_calc_cached oz self (map val (Synchrotron_pars self)) xlo xhi;
          self1 = fst (snd r)
      in case and_then (fst r) (\<lambda>model. rescale_ampl (par_ampl self1) model dep xlo xhi) of
           Inl e \<Rightarrow> (Inl e, self1, snd (snd r))
         | Inr a \<Rightarrow> (Inr (), self1\<lparr>par_ampl := a\<rparr>, snd (snd r)))"

definition PionDecay_guess_cached ::
  "onezone \<Rightarrow> arith_model \<Rightarrow> real list \<Rightarrow> real list \<Rightarrow> real list
   \<Rightarrow> (error + unit) \<times> arith_model \<times> event list" where
  "PionDecay_guess_cached oz self dep xlo xhi =
     (let r = PionDecay_calc_cached oz self (map val (pars self)) xlo xhi;
          self1 = fst (snd r)
      in case and_then (fst r) (\<lambda>model. rescale_ampl (par_ampl self1) model dep xlo xhi) of
           Inl e \<Rightarrow> (Inl e, self1, snd (snd r))
         | Inr a \<Rightarrow> (Inr (), self1\<lparr>par_ampl := a\<rparr>, snd (snd r)))"

text \<open>
  A store is sound for a body when every array it holds is what the body returns on
  the parameter vector and the pair of equally long edge arrays that its digest
  stands for.
\<close>

definition store_sound ::
  "(real list \<Rightarrow> real list \<Rightarrow> real list \<Rightarrow> error + real list) \<Rightarrow> (digest \<times> real list) list \<Rightarrow> bool" where
  "store_sound body d =
     list_all (\<lambda>kv. even (length (snd (fst kv))) \<longrightarrow>
        body (fst (fst kv))
          (take (length (snd (fst kv)) div 2) (snd (fst kv)))
          (drop (length (snd (fst kv)) div 2) (snd (fst kv))) = Inr (snd kv)) d"

section \<open>Observing a trace, and a library for concrete runs\<close>

text \<open>The argument records of the evaluators a trace builds, in order.\<close>

fun constructed :: "event list \<Rightarrow> ozm_args list" where
  "constructed [] = []"
| "constructed (New_ElectronOZM a # es) = a # constructed es"
| "constructed (New_ProtonOZM a # es) = a # constructed es"
| "constructed (Print_item i # es) = constructed es"
| "constructed (Print_newline # es) = constructed es"

text \<open>
  A stand-in for the emission library, used only to run the adapters on concrete
  inputs: a flat spectrum at the amplitude, a flat spectrum at twice the amplitude,
  and a spectrum proportional to the energy.
\<close>

definition oz_flat :: onezone where
  "oz_flat =
     \<lparr>specic = (\<lambda>a. Inr (map (\<lambda>e. arg_norm a) (arg_outspec a))),
      specsy = (\<lambda>a. Inr (map (\<lambda>e. 2 * arg_norm a) (arg_outspec a))),
      specpp = (\<lambda>a. Inr (map (\<lambda>e. arg_norm a * e / 1000) (arg_outspec a)))\<rparr>"

text \<open>A second stand-in, which fails for every spectral index but 2.\<close>

definition oz_picky :: onezone where
  "oz_picky =
     \<lparr>specic = (\<lambda>a. if arg_index a = 2 then specic oz_flat a else Inl OZMError),
      specsy = (\<lambda>a. if arg_index a = 2 then specsy oz_flat a else Inl OZMError),
      specpp = (\<lambda>a. if arg_index a = 2 then specpp oz_flat a else Inl OZMError)\<rparr>"

section \<open>Properties of the grid merger\<close>

lemma zeros_filled:
  "(xlo @ drop (length xlo) (replicate (length xlo + 1) (0::real)))
     [length (xlo @ drop (length xlo) (replicate (length xlo + 1) 0)) - 1 := v] = xlo @ [v]"
proof -
  have "drop (length xlo) (replicate (length xlo + 1) (0::real)) = [0]"
    by (simp only: drop_replicate) simp
  then show ?thesis
    by (simp add: list_update_append)
qed

lemma mergex_base_eq:
  "xhi \<noteq> [] \<Longrightarrow> mergex xlo xhi False = Inr (xlo @ [last xhi])"
  unfolding mergex_def Let_def by (simp only: zeros_filled if_False)

lemma mergex_mid_eq:
  assumes "xhi \<noteq> []" and "length xlo = length xhi"
  shows "mergex xlo xhi True =
         Inr (sort ((xlo @ [last xhi]) @ map2 (\<lambda>a b. (a + b) / 2) xlo xhi))"
proof -
  have mid: "np_binop (+) xlo xhi = Inr (map2 (+) xlo xhi)"
    using assms(2) by (simp add: np_binop_def)
  have half: "np_halve (map2 (+) xlo xhi) = map2 (\<lambda>a b. (a + b) / 2) xlo xhi"
    by (simp add: np_halve_def split_def)
  have "mergex xlo xhi True =
        and_then (np_binop (+) xlo xhi) (\<lambda>s. Inr (sort ((xlo @ [last xhi]) @ np_halve s)))"
    unfolding mergex_def Let_def using assms(1)
    by (simp only: zeros_filled if_False if_True)
  then show ?thesis
    by (simp only: mid half and_then_def sum.case)
qed

lemma map2_nth_upt:
  "length xs = length ys \<Longrightarrow>
   map2 f xs ys = map (\<lambda>i. f (xs ! i) (ys ! i)) [0..<length xs]"
  by (rule nth_equalityI) simp_all

section \<open>Arrays, effects and the shared statements\<close>

lemma and_then_Inr [simp]: "and_then (Inr x) f = f x"
  by (simp add: and_then_def)

lemma and_then_Inl [simp]: "and_then (Inl e) f = Inl e"
  by (simp add: and_then_def)

lemma np_binop_same:
  "length a = length b \<Longrightarrow> np_binop f a b = Inr (map2 f a b)"
  by (simp add: np_binop_def)

lemma fst_io_bind: "fst (io_bind m f) = and_then (fst m) (\<lambda>x. fst (f x))"
  by (simp add: io_bind_def and_then_def split: sum.splits)

lemma fst_io_lift [simp]: "fst (io_lift r) = r"
  by (simp add: io_lift_def)

lemma fst_io_emit [simp]: "fst (io_emit ev) = Inr ()"
  by (simp add: io_emit_def)

lemma fst_io_return [simp]: "fst (io_return x) = Inr x"
  by (simp add: io_return_def)

lemma snd_io_bind:
  "snd (io_bind m f) = (case fst m of Inl e \<Rightarrow> snd m | Inr x \<Rightarrow> snd m @ snd (f x))"
  by (simp add: io_bind_def split: sum.splits)

lemma snd_io_lift [simp]: "snd (io_lift r) = []"
  by (simp add: io_lift_def)

lemma snd_io_emit [simp]: "snd (io_emit ev) = [ev]"
  by (simp add: io_emit_def)

lemma snd_io_return [simp]: "snd (io_return x) = []"
  by (simp add: io_return_def)

lemma constructed_append [simp]:
  "constructed (es @ fs) = constructed es @ constructed fs"
  by (induction es rule: constructed.induct) simp_all

lemma photons_per_bin_aligned:
  assumes "length m = length g"
  shows "photons_per_bin g m =
         Inr (map (\<lambda>i. (g ! (i + 1) - g ! i) * (m ! i + m ! (i + 1)) / 2) [0..<length g - 1])"
proof -
  have w: "np_binop (-) (drop 1 g) (butlast g) = Inr (map2 (-) (drop 1 g) (butlast g))"
    by (rule np_binop_same) simp
  have s: "np_binop (+) (drop 1 m) (butlast m) = Inr (map2 (+) (drop 1 m) (butlast m))"
    by (rule np_binop_same) simp
  have p: "np_binop (*) (map2 (-) (drop 1 g) (butlast g)) (np_halve (map2 (+) (drop 1 m) (butlast m)))
         = Inr (map2 (*) (map2 (-) (drop 1 g) (butlast g)) (np_halve (map2 (+) (drop 1 m) (butlast m))))"
    by (rule np_binop_same) (simp add: np_halve_def assms)
  have "map2 (*) (map2 (-) (drop 1 g) (butlast g)) (np_halve (map2 (+) (drop 1 m) (butlast m)))
      = map (\<lambda>i. (g ! (i + 1) - g ! i) * (m ! i + m ! (i + 1)) / 2) [0..<length g - 1]"
    by (rule nth_equalityI) (simp_all add: np_halve_def assms nth_butlast add.commute)
  then show ?thesis
    by (simp only: photons_per_bin_def w s p and_then_Inr)
qed

lemma np_trapz_aligned:
  assumes "length y = length x"
  shows "\<exists>v. np_trapz y x = Inr v"
proof -
  have s: "np_binop (+) (drop 1 y) (butlast y) = Inr (map2 (+) (drop 1 y) (butlast y))"
    by (rule np_binop_same) simp
  have p: "np_binop (*) (np_diff x) (map2 (+) (drop 1 y) (butlast y))
         = Inr (map2 (*) (np_diff x) (map2 (+) (drop 1 y) (butlast y)))"
    by (rule np_binop_same) (simp add: np_diff_def assms)
  show ?thesis
    by (simp only: np_trapz_def s p and_then_Inr) blast
qed

lemma np_min_ok: "g \<noteq> [] \<Longrightarrow> \<exists>v. np_min g = Inr v"
  by (cases g) simp_all

lemma np_max_ok: "g \<noteq> [] \<Longrightarrow> \<exists>v. np_max g = Inr v"
  by (cases g) simp_all

lemma fst_diagnostic_print:
  "fst (diagnostic_print g p m) =
     and_then (np_min g) (\<lambda>_. and_then (np_max g) (\<lambda>_.
     and_then (and_then (np_binop (*) (np_scale g (160217656 / 10 ^ 20)) m) (\<lambda>y. np_trapz y g))
       (\<lambda>_. Inr ())))"
  by (simp add: diagnostic_print_def fst_io_bind)

lemma diagnostic_print_ok:
  assumes "g \<noteq> []" and "length m = length g"
  shows "fst (diagnostic_print g p m) = Inr ()"
proof -
  obtain a where a: "np_min g = Inr a" using np_min_ok [OF assms(1)] by blast
  obtain b where b: "np_max g = Inr b" using np_max_ok [OF assms(1)] by blast
  have y: "np_binop (*) (np_scale g (160217656 / 10 ^ 20)) m
         = Inr (map2 (*) (np_scale g (160217656 / 10 ^ 20)) m)"
    by (rule np_binop_same) (simp add: np_scale_def assms)
  obtain v where v: "np_trapz (map2 (*) (np_scale g (160217656 / 10 ^ 20)) m) g = Inr v"
    using np_trapz_aligned [of "map2 (*) (np_scale g (160217656 / 10 ^ 20)) m" g]
    by (auto simp: np_scale_def assms)
  show ?thesis
    by (simp only: fst_diagnostic_print a b y v and_then_Inr)
qed

lemma constructed_diagnostic_print [simp]:
  "constructed (snd (diagnostic_print g p m)) = []"
  by (simp add: diagnostic_print_def snd_io_bind split: sum.splits)

lemma unpack5_cases:
  "unpack5 p = Inl ValueError \<or> (\<exists>a b c d e. p = [a, b, c, d, e])"
  by (cases p rule: unpack5.cases) simp_all

lemma unpack6_cases:
  "unpack6 p = Inl ValueError \<or> (\<exists>a b c d e f. p = [a, b, c, d, e, f])"
  by (cases p rule: unpack6.cases) simp_all

lemma tail_of_calc:
  assumes "g \<noteq> []" and "length m = length g"
  shows "and_then (photons_per_bin g m) (\<lambda>photons.
           and_then (fst (diagnostic_print g p m)) (\<lambda>_. Inr photons)) =
         Inr (map (\<lambda>i. (g ! (i + 1) - g ! i) * (m ! i + m ! (i + 1)) / 2) [0..<length g - 1])"
  by (simp only: photons_per_bin_aligned [OF assms(2)] diagnostic_print_ok [OF assms]
      and_then_Inr)

section \<open>The three calc methods\<close>

lemma constructed_InverseCompton_calc:
  assumes "mergex xlo xhi False = Inr x"
  shows "constructed (snd (InverseCompton_calc oz self [index, ref, ampl, cutoff, beta] xlo xhi)) =
         [\<lparr>arg_outspec = np_scale x 1000, arg_norm = ampl, arg_index = index,
          arg_norm_energy = ref * 10 ^ 12, arg_cutoff = Some (cutoff * 10 ^ 12),
          arg_beta = beta, arg_B = None, arg_seedspec = [''CMB''], arg_nolog = True,
          arg_gmin = Some (10 ^ 5), arg_gmax = Some (10 ^ 10), arg_ngamd = Some 30,
          arg_Etrans = None\<rparr>]"
  by (simp add: InverseCompton_calc_def assms snd_io_bind fst_io_bind Let_def
      ElectronOZM_calc_ic_def split: sum.splits)

lemma fst_InverseCompton_calc:
  "fst (InverseCompton_calc oz self p xlo xhi) =
     and_then (unpack5 p) (\<lambda>(index, ref, ampl, cutoff, beta).
     and_then (mergex xlo xhi False) (\<lambda>x.
     and_then (specic oz
        \<lparr>arg_outspec = np_scale x 1000, arg_norm = ampl, arg_index = index,
         arg_norm_energy = ref * 10 ^ 12, arg_cutoff = Some (cutoff * 10 ^ 12),
         arg_beta = beta, arg_B = None, arg_seedspec = [''CMB''], arg_nolog = True,
         arg_gmin = Some (10 ^ 5), arg_gmax = Some (10 ^ 10), arg_ngamd = Some 30,
         arg_Etrans = None\<rparr>) (\<lambda>model.
     and_then (photons_per_bin (np_scale x 1000) model) (\<lambda>photons.
     and_then (fst (diagnostic_print (np_scale x 1000) p model)) (\<lambda>_. Inr photons)))))"
  by (simp add: InverseCompton_calc_def fst_io_bind Let_def ElectronOZM_calc_ic_def split_def)

lemma constructed_InverseCompton_calc_cases:
  "constructed (snd (InverseCompton_calc oz self p xlo xhi)) = [] \<or>
   (\<exists>index ref ampl cutoff beta. p = [index, ref, ampl, cutoff, beta] \<and> xhi \<noteq> [])"
proof -
  consider "unpack5 p = Inl ValueError" | "xhi = []"
    | index ref ampl cutoff beta where "p = [index, ref, ampl, cutoff, beta]" "xhi \<noteq> []"
    using unpack5_cases [of p] by blast
  then show ?thesis
  proof cases
    case 1
    then show ?thesis
      by (simp add: InverseCompton_calc_def snd_io_bind)
  next
    case 2
    then show ?thesis
      by (simp add: InverseCompton_calc_def snd_io_bind mergex_def Let_def split: sum.splits)
  next
    case 3
    then show ?thesis by blast
  qed
qed

lemma InverseCompton_per_bin:
  assumes "constructed (snd (InverseCompton_calc oz self p xlo xhi)) = [a]"
    and "specic oz a = Inr m"
    and "length m = length (arg_outspec a)"
  shows "fst (InverseCompton_calc oz self p xlo xhi) =
         Inr (map (\<lambda>i. (arg_outspec a ! (i + 1) - arg_outspec a ! i) * (m ! i + m ! (i + 1)) / 2)
                [0..<length (arg_outspec a) - 1])"
proof -
  from assms(1) constructed_InverseCompton_calc_cases [of oz self p xlo xhi]
  obtain index ref ampl cutoff beta
    where p: "p = [index, ref, ampl, cutoff, beta]" and ne: "xhi \<noteq> []"
    by auto
  have mx: "mergex xlo xhi False = Inr (xlo @ [last xhi])"
    by (rule mergex_base_eq [OF ne])
  let ?g = "np_scale (xlo @ [last xhi]) 1000"
  have a: "a = \<lparr>arg_outspec = ?g, arg_norm = ampl, arg_index = index,
            arg_norm_energy = ref * 10 ^ 12, arg_cutoff = Some (cutoff * 10 ^ 12),
            arg_beta = beta, arg_B = None, arg_seedspec = [''CMB''], arg_nolog = True,
            arg_gmin = Some (10 ^ 5), arg_gmax = Some (10 ^ 10), arg_ngamd = Some 30,
            arg_Etrans = None\<rparr>"
    using assms(1) unfolding p constructed_InverseCompton_calc [OF mx] by simp
  have g: "arg_outspec a = ?g" by (simp add: a)
  have gne: "?g \<noteq> []" by (simp add: np_scale_def)
  have len: "length m = length ?g" using assms(3) g by simp
  have "fst (InverseCompton_calc oz self p xlo xhi) =
        and_then (specic oz a) (\<lambda>model.
          and_then (photons_per_bin ?g model) (\<lambda>photons.
          and_then (fst (diagnostic_print ?g p model)) (\<lambda>_. Inr photons)))"
    unfolding fst_InverseCompton_calc by (simp add: p mx a)
  also have "\<dots> = Inr (map (\<lambda>i. (?g ! (i + 1) - ?g ! i) * (m ! i + m ! (i + 1)) / 2)
                [0..<length ?g - 1])"
    by (simp only: assms(2) and_then_Inr tail_of_calc [OF gne len])
  finally show ?thesis by (simp only: g)
qed

lemma constructed_Synchrotron_calc:
  assumes "mergex xlo xhi False = Inr x"
  shows "constructed (snd (Synchrotron_calc oz self [index, ref, ampl, cutoff, beta, B] xlo xhi)) =
         [\<lparr>arg_outspec = np_scale x 1000, arg_norm = ampl, arg_index = index,
          arg_norm_energy = ref * 10 ^ 12, arg_cutoff = Some (cutoff * 10 ^ 12),
          arg_beta = beta, arg_B = Some B, arg_seedspec = [''CMB''], arg_nolog = True,
          arg_gmin = Some (10 ^ 5), arg_gmax = Some (10 ^ 10), arg_ngamd = Some 30,
          arg_Etrans = None\<rparr>]"
  by (simp add: Synchrotron_calc_def assms snd_io_bind fst_io_bind Let_def
      ElectronOZM_calc_sy_def split: sum.splits)

lemma fst_Synchrotron_calc:
  "fst (Synchrotron_calc oz self p xlo xhi) =
     and_then (unpack6 p) (\<lambda>(index, ref, ampl, cutoff, beta, B).
     and_then (mergex xlo xhi False) (\<lambda>x.
     and_then (specsy oz
        \<lparr>arg_outspec = np_scale x 1000, arg_norm = ampl, arg_index = index,
         arg_norm_energy = ref * 10 ^ 12, arg_cutoff = Some (cutoff * 10 ^ 12),
         arg_beta = beta, arg_B = Some B, arg_seedspec = [''CMB''], arg_nolog = True,
         arg_gmin = Some (10 ^ 5), arg_gmax = Some (10 ^ 10), arg_ngamd = Some 30,
         arg_Etrans = None\<rparr>) (\<lambda>model.
     and_then (photons_per_bin (np_scale x 1000) model) (\<lambda>photons.
     and_then (fst (diagnostic_print (np_scale x 1000) p model)) (\<lambda>_. Inr photons)))))"
  by (simp add: Synchrotron_calc_def fst_io_bind Let_def ElectronOZM_calc_sy_def split_def)

lemma constructed_Synchrotron_calc_cases:
  "constructed (snd (Synchrotron_calc oz self p xlo xhi)) = [] \<or>
   (\<exists>index ref ampl cutoff beta B. p = [index, ref, ampl, cutoff, beta, B] \<and> xhi \<noteq> [])"
proof -
  consider "unpack6 p = Inl ValueError" | "xhi = []"
    | index ref ampl cutoff beta B where "p = [index, ref, ampl, cutoff, beta, B]" "xhi \<noteq> []"
    using unpack6_cases [of p] by blast
  then show ?thesis
  proof cases
    case 1
    then show ?thesis
      by (simp add: Synchrotron_calc_def snd_io_bind)
  next
    case 2
    then show ?thesis
      by (simp add: Synchrotron_calc_def snd_io_bind mergex_def Let_def split: sum.splits)
  next
    case 3
    then show ?thesis by blast
  qed
qed

lemma Synchrotron_per_bin:
  assumes "constructed (snd (Synchrotron_calc oz self p xlo xhi)) = [a]"
    and "specsy oz a = Inr m"
    and "length m = length (arg_outspec a)"
  shows "fst (Synchrotron_calc oz self p xlo xhi) =
         Inr (map (\<lambda>i. (arg_outspec a ! (i + 1) - arg_outspec a ! i) * (m ! i + m ! (i + 1)) / 2)
                [0..<length (arg_outspec a) - 1])"
proof -
  from assms(1) constructed_Synchrotron_calc_cases [of oz self p xlo xhi]
  obtain index ref ampl cutoff beta B
    where p: "p = [index, ref, ampl, cutoff, beta, B]" and ne: "xhi \<noteq> []"
    by auto
  have mx: "mergex xlo xhi False = Inr (xlo @ [last xhi])"
    by (rule mergex_base_eq [OF ne])
  let ?g = "np_scale (xlo @ [last xhi]) 1000"
  have a: "a = \<lparr>arg_outspec = ?g, arg_norm = ampl, arg_index = index,
            arg_norm_energy = ref * 10 ^ 12, arg_cutoff = Some (cutoff * 10 ^ 12),
            arg_beta = beta, arg_B = Some B, arg_seedspec = [''CMB''], arg_nolog = True,
            arg_gmin = Some (10 ^ 5), arg_gmax = Some (10 ^ 10), arg_ngamd = Some 30,
            arg_Etrans = None\<rparr>"
    using assms(1) unfolding p constructed_Synchrotron_calc [OF mx] by simp
  have g: "arg_outspec a = ?g" by (simp add: a)
  have gne: "?g \<noteq> []" by (simp add: np_scale_def)
  have len: "length m = length ?g" using assms(3) g by simp
  have "fst (Synchrotron_calc oz self p xlo xhi) =
        and_then (specsy oz a) (\<lambda>model.
          and_then (photons_per_bin ?g model) (\<lambda>photons.
          and_then (fst (diagnostic_print ?g p model)) (\<lambda>_. Inr photons)))"
    unfolding fst_Synchrotron_calc by (simp add: p mx a)
  also have "\<dots> = Inr (map (\<lambda>i. (?g ! (i + 1) - ?g ! i) * (m ! i + m ! (i + 1)) / 2)
                [0..<length ?g - 1])"
    by (simp only: assms(2) and_then_Inr tail_of_calc [OF gne len])
  finally show ?thesis by (simp only: g)
qed

lemma constructed_PionDecay_calc:
  assumes "mergex xlo xhi False = Inr x"
  shows "constructed (snd (PionDecay_calc oz self [index, ref, ampl, cutoff, beta] xlo xhi)) =
         [\<lparr>arg_outspec = np_scale x 1000, arg_norm = ampl, arg_index = index,
          arg_norm_energy = ref * 10 ^ 12, arg_cutoff = (if cutoff = 0 then None else Some (cutoff * 10 ^ 12)),
          arg_beta = beta, arg_B = None, arg_seedspec = [''CMB''], arg_nolog = True,
          arg_gmin = None, arg_gmax = None, arg_ngamd = None,
          arg_Etrans = Some (10 ^ 10)\<rparr>]"
  by (simp add: PionDecay_calc_def assms snd_io_bind fst_io_bind Let_def
      ProtonOZM_calc_outspec_def split: sum.splits)

lemma fst_PionDecay_calc:
  "fst (PionDecay_calc oz self p xlo xhi) =
     and_then (unpack5 p) (\<lambda>(index, ref, ampl, cutoff, beta).
     and_then (mergex xlo xhi False) (\<lambda>x.
     and_then (specpp oz
        \<lparr>arg_outspec = np_scale x 1000, arg_norm = ampl, arg_index = index,
         arg_norm_energy = ref * 10 ^ 12, arg_cutoff = (if cutoff = 0 then None else Some (cutoff * 10 ^ 12)),
         arg_beta = beta, arg_B = None, arg_seedspec = [''CMB''], arg_nolog = True,
         arg_gmin = None, arg_gmax = None, arg_ngamd = None,
         arg_Etrans = Some (10 ^ 10)\<rparr>) (\<lambda>model.
     and_then (photons_per_bin (np_scale x 1000) model) (\<lambda>photons.
     and_then (fst (diagnostic_print (np_scale x 1000) p model)) (\<lambda>_. Inr photons)))))"
  by (simp add: PionDecay_calc_def fst_io_bind Let_def ProtonOZM_calc_outspec_def split_def)

lemma constructed_PionDecay_calc_cases:
  "constructed (snd (PionDecay_calc oz self p xlo xhi)) = [] \<or>
   (\<exists>index ref ampl cutoff beta. p = [index, ref, ampl, cutoff, beta] \<and> xhi \<noteq> [])"
proof -
  consider "unpack5 p = Inl ValueError" | "xhi = []"
    | index ref ampl cutoff beta where "p = [index, ref, ampl, cutoff, beta]" "xhi \<noteq> []"
    using unpack5_cases [of p] by blast
  then show ?thesis
  proof cases
    case 1
    then show ?thesis
      by (simp add: PionDecay_calc_def snd_io_bind)
  next
    case 2
    then show ?thesis
      by (simp add: PionDecay_calc_def snd_io_bind mergex_def Let_def split: sum.splits)
  next
    case 3
    then show ?thesis by blast
  qed
qed

lemma PionDecay_per_bin:
  assumes "constructed (snd (PionDecay_calc oz self p xlo xhi)) = [a]"
    and "specpp oz a = Inr m"
    and "length m = length (arg_outspec a)"
  shows "fst (PionDecay_calc oz self p xlo xhi) =
         Inr (map (\<lambda>i. (arg_outspec a ! (i + 1) - arg_outspec a ! i) * (m ! i + m ! (i + 1)) / 2)
                [0..<length (arg_outspec a) - 1])"
proof -
  from assms(1) constructed_PionDecay_calc_cases [of oz self p xlo xhi]
  obtain index ref ampl cutoff beta
    where p: "p = [index, ref, ampl, cutoff, beta]" and ne: "xhi \<noteq> []"
    by auto
  have mx: "mergex xlo xhi False = Inr (xlo @ [last xhi])"
    by (rule mergex_base_eq [OF ne])
  let ?g = "np_scale (xlo @ [last xhi]) 1000"
  have a: "a = \<lparr>arg_outspec = ?g, arg_norm = ampl, arg_index = index,
            arg_norm_energy = ref * 10 ^ 12, arg_cutoff = (if cutoff = 0 then None else Some (cutoff * 10 ^ 12)),
            arg_beta = beta, arg_B = None, arg_seedspec = [''CMB''], arg_nolog = True,
            arg_gmin = None, arg_gmax = None, arg_ngamd = None,
            arg_Etrans = Some (10 ^ 10)\<rparr>"
    using assms(1) unfolding p constructed_PionDecay_calc [OF mx] by simp
  have g: "arg_outspec a = ?g" by (simp add: a)
  have gne: "?g \<noteq> []" by (simp add: np_scale_def)
  have len: "length m = length ?g" using assms(3) g by simp
  have "fst (PionDecay_calc oz self p xlo xhi) =
        and_then (specpp oz a) (\<lambda>model.
          and_then (photons_per_bin ?g model) (\<lambda>photons.
          and_then (fst (diagnostic_print ?g p model)) (\<lambda>_. Inr photons)))"
    unfolding fst_PionDecay_calc by (simp add: p mx a)
  also have "\<dots> = Inr (map (\<lambda>i. (?g ! (i + 1) - ?g ! i) * (m ! i + m ! (i + 1)) / 2)
                [0..<length ?g - 1])"
    by (simp only: assms(2) and_then_Inr tail_of_calc [OF gne len])
  finally show ?thesis by (simp only: g)
qed

lemma InverseCompton_calc_args:
  assumes "constructed (snd (InverseCompton_calc oz self p xlo xhi)) = [a]"
    and "mergex xlo xhi False = Inr x"
  shows "\<exists>index ref ampl cutoff beta. p = [index, ref, ampl, cutoff, beta] \<and>
           a = \<lparr>arg_outspec = np_scale x 1000, arg_norm = ampl, arg_index = index,
            arg_norm_energy = ref * 10 ^ 12, arg_cutoff = Some (cutoff * 10 ^ 12),
            arg_beta = beta, arg_B = None, arg_seedspec = [''CMB''], arg_nolog = True,
            arg_gmin = Some (10 ^ 5), arg_gmax = Some (10 ^ 10), arg_ngamd = Some 30,
            arg_Etrans = None\<rparr>"
proof -
  from assms(1) constructed_InverseCompton_calc_cases [of oz self p xlo xhi]
  obtain index ref ampl cutoff beta
    where p: "p = [index, ref, ampl, cutoff, beta]"
    by auto
  from assms(1) have "a = \<lparr>arg_outspec = np_scale x 1000, arg_norm = ampl, arg_index = index,
            arg_norm_energy = ref * 10 ^ 12, arg_cutoff = Some (cutoff * 10 ^ 12),
            arg_beta = beta, arg_B = None, arg_seedspec = [''CMB''], arg_nolog = True,
            arg_gmin = Some (10 ^ 5), arg_gmax = Some (10 ^ 10), arg_ngamd = Some 30,
            arg_Etrans = None\<rparr>"
    unfolding p constructed_InverseCompton_calc [OF assms(2)] by simp
  with p show ?thesis by blast
qed

lemma Synchrotron_calc_args:
  assumes "constructed (snd (Synchrotron_calc oz self p xlo xhi)) = [a]"
    and "mergex xlo xhi False = Inr x"
  shows "\<exists>index ref ampl cutoff beta B. p = [index, ref, ampl, cutoff, beta, B] \<and>
           a = \<lparr>arg_outspec = np_scale x 1000, arg_norm = ampl, arg_index = index,
            arg_norm_energy = ref * 10 ^ 12, arg_cutoff = Some (cutoff * 10 ^ 12),
            arg_beta = beta, arg_B = Some B, arg_seedspec = [''CMB''], arg_nolog = True,
            arg_gmin = Some (10 ^ 5), arg_gmax = Some (10 ^ 10), arg_ngamd = Some 30,
            arg_Etrans = None\<rparr>"
proof -
  from assms(1) constructed_Synchrotron_calc_cases [of oz self p xlo xhi]
  obtain index ref ampl cutoff beta B
    where p: "p = [index, ref, ampl, cutoff, beta, B]"
    by auto
  from assms(1) have "a = \<lparr>arg_outspec = np_scale x 1000, arg_norm = ampl, arg_index = index,
            arg_norm_energy = ref * 10 ^ 12, arg_cutoff = Some (cutoff * 10 ^ 12),
            arg_beta = beta, arg_B = Some B, arg_seedspec = [''CMB''], arg_nolog = True,
            arg_gmin = Some (10 ^ 5), arg_gmax = Some (10 ^ 10), arg_ngamd = Some 30,
            arg_Etrans = None\<rparr>"
    unfolding p constructed_Synchrotron_calc [OF assms(2)] by simp
  with p show ?thesis by blast
qed

lemma PionDecay_calc_args:
  assumes "constructed (snd (PionDecay_calc oz self p xlo xhi)) = [a]"
    and "mergex xlo xhi False = Inr x"
  shows "\<exists>index ref ampl cutoff beta. p = [index, ref, ampl, cutoff, beta] \<and>
           a = \<lparr>arg_outspec = np_scale x 1000, arg_norm = ampl, arg_index = index,
            arg_norm_energy = ref * 10 ^ 12, arg_cutoff = (if cutoff = 0 then None else Some (cutoff * 10 ^ 12)),
            arg_beta = beta, arg_B = None, arg_seedspec = [''CMB''], arg_nolog = True,
            arg_gmin = None, arg_gmax = None, arg_ngamd = None,
            arg_Etrans = Some (10 ^ 10)\<rparr>"
proof -
  from assms(1) constructed_PionDecay_calc_cases [of oz self p xlo xhi]
  obtain index ref ampl cutoff beta
    where p: "p = [index, ref, ampl, cutoff, beta]"
    by auto
  from assms(1) have "a = \<lparr>arg_outspec = np_scale x 1000, arg_norm = ampl, arg_index = index,
            arg_norm_energy = ref * 10 ^ 12, arg_cutoff = (if cutoff = 0 then None else Some (cutoff * 10 ^ 12)),
            arg_beta = beta, arg_B = None, arg_seedspec = [''CMB''], arg_nolog = True,
            arg_gmin = None, arg_gmax = None, arg_ngamd = None,
            arg_Etrans = Some (10 ^ 10)\<rparr>"
    unfolding p constructed_PionDecay_calc [OF assms(2)] by simp
  with p show ?thesis by blast
qed

section \<open>The claims about the grid merger\<close>

text \<open>
  Claim C2.  For equal-length \<open>lo\<close>, \<open>hi\<close> of size \<open>N\<close> (with \<open>N \<ge> 1\<close>, so that the final
  high edge \<open>hi[N-1]\<close> exists), the merger without midpoints returns exactly \<open>N + 1\<close>
  points: the \<open>N\<close> low edges in their order, followed by \<open>hi[N-1]\<close>.
\<close>

theorem mergex_no_midpoints:
  assumes "length lo = N" and "length hi = N" and "1 \<le> N"
  shows "\<exists>x. mergex lo hi False = Inr x \<and> length x = N + 1 \<and>
             x = lo @ [hi ! (N - 1)]"
proof -
  from assms have ne: "hi \<noteq> []" by auto
  then have "last hi = hi ! (N - 1)"
    using assms(2) by (simp add: last_conv_nth)
  with mergex_base_eq [OF ne, of lo] assms(1) show ?thesis by simp
qed

theorem mergex_no_midpoints_witness:
  "length [1, 2, 3 :: real] = 3 \<and> length [2, 3, 4 :: real] = 3 \<and> (1::nat) \<le> 3 \<and>
   mergex [1, 2, 3] [2, 3, 4] False = Inr [1, 2, 3, 4]"
  using mergex_no_midpoints [of "[1, 2, 3]" 3 "[2, 3, 4]"] by simp

text \<open>
  Claim C3.  For equal-length \<open>lo\<close>, \<open>hi\<close> of size \<open>N \<ge> 1\<close>, the merger with midpoints
  returns exactly \<open>2N + 1\<close> points, in ascending order, and they are the points of the
  base output (\<open>lo\<close> followed by \<open>hi[N-1]\<close>) together with the \<open>N\<close> midpoints
  \<open>(lo[i] + hi[i]) / 2\<close>, each with its multiplicity.
\<close>

theorem mergex_midpoints:
  assumes "length lo = N" and "length hi = N" and "1 \<le> N"
  shows "\<exists>x. mergex lo hi True = Inr x \<and> length x = 2 * N + 1 \<and> sorted x \<and>
             mset x = mset (lo @ [hi ! (N - 1)]) +
                      mset (map (\<lambda>i. (lo ! i + hi ! i) / 2) [0..<N])"
proof -
  from assms have ne: "hi \<noteq> []" by auto
  have eq: "length lo = length hi" using assms by simp
  have lst: "last hi = hi ! (N - 1)"
    using ne assms(2) by (simp add: last_conv_nth)
  have mids: "map2 (\<lambda>a b. (a + b) / 2) lo hi = map (\<lambda>i. (lo ! i + hi ! i) / 2) [0..<N]"
    using map2_nth_upt [OF eq, of "\<lambda>a b. (a + b) / 2"] assms(1) by simp
  let ?x = "sort ((lo @ [hi ! (N - 1)]) @ map (\<lambda>i. (lo ! i + hi ! i) / 2) [0..<N])"
  have "mergex lo hi True = Inr ?x"
    using mergex_mid_eq [OF ne eq] by (simp only: lst mids)
  moreover have "length ?x = 2 * N + 1"
    using assms(1) by simp
  moreover have "sorted ?x" by simp
  moreover have "mset ?x = mset (lo @ [hi ! (N - 1)]) +
      mset (map (\<lambda>i. (lo ! i + hi ! i) / 2) [0..<N])"
    by (simp only: mset_sort mset_append)
  ultimately show ?thesis by blast
qed

theorem mergex_midpoints_witness:
  "length [1, 2 :: real] = 2 \<and> length [2, 3 :: real] = 2 \<and> (1::nat) \<le> 2 \<and>
   mergex [1, 2] [2, 3] True = Inr [1, 3/2, 2, 5/2, 3] \<and>
   (\<exists>x. mergex [1, 2] [2, 3] True = Inr x \<and> length x = 2 * 2 + 1 \<and> sorted x \<and>
        mset x = mset ([1, 2] @ [[2, 3] ! (2 - 1)]) +
                 mset (map (\<lambda>i. ([1, 2] ! i + [2, 3] ! i) / 2) [0..<2]))"
proof -
  have ev: "mergex [1, 2] [2, 3] True = Inr [1, 3/2, 2, 5/2, 3]"
    by (simp add: mergex_def np_binop_def and_then_def np_halve_def)
  show ?thesis
    using mergex_midpoints [of "[1, 2]" 2 "[2, 3]"] ev by simp
qed

section \<open>Concrete runs\<close>

lemma all_less_three: "(\<forall>i<3::nat. P i) \<longleftrightarrow> P 0 \<and> P 1 \<and> P 2"
proof -
  have "i < 3 \<longleftrightarrow> i = 0 \<or> i = 1 \<or> i = 2" for i :: nat by arith
  then show ?thesis by auto
qed

lemma mergex_124: "mergex [1, 2, 4] [2, 4, 8] False = Inr [1, 2, 4, 8]"
  using mergex_base_eq [of "[2, 4, 8]" "[1, 2, 4]"] by simp

lemma print_ok_124: "fst (diagnostic_print [1000, 2000, 4000, 8000] p [a, b, c, d]) = Inr ()"
  by (rule diagnostic_print_ok) simp_all

lemma photons_124:
  "photons_per_bin [1000, 2000, 4000, 8000] [a, b, c, d] =
   Inr [1000 * ((b + a) / 2), 2000 * ((c + b) / 2), 4000 * ((d + c) / 2)]"
  by (simp add: photons_per_bin_def np_binop_def np_halve_def)

lemma trapz_124:
  "np_trapz [a, b, c] [1, 2, 4] = Inr ((b + a) / 2 + (2 * (c + b)) / 2)"
  by (simp add: np_trapz_def np_binop_def np_halve_def np_diff_def)

lemma InverseCompton_calc_124:
  "fst (InverseCompton_calc oz_flat self [index, ref, ampl, cutoff, beta] [1, 2, 4] [2, 4, 8]) =
   Inr [1000 * ampl, 2000 * ampl, 4000 * ampl]"
  by (simp add: fst_InverseCompton_calc mergex_124 oz_flat_def np_scale_def photons_124
      print_ok_124)

lemma Synchrotron_calc_124:
  "fst (Synchrotron_calc oz_flat self [index, ref, ampl, cutoff, beta, B] [1, 2, 4] [2, 4, 8]) =
   Inr [2000 * ampl, 4000 * ampl, 8000 * ampl]"
  by (simp add: fst_Synchrotron_calc mergex_124 oz_flat_def np_scale_def photons_124
      print_ok_124)

lemma PionDecay_calc_124:
  "fst (PionDecay_calc oz_flat self [index, ref, ampl, cutoff, beta] [1, 2, 4] [2, 4, 8]) =
   Inr [1500 * ampl, 6000 * ampl, 24000 * ampl]"
  by (simp add: fst_PionDecay_calc mergex_124 oz_flat_def np_scale_def photons_124
      print_ok_124)

section \<open>The claims about calc\<close>

text \<open>
  Claim C1.  Let \<open>g\<close> be the merged grid of a call, in eV, with \<open>N + 1\<close> points, and let
  the curve \<open>m\<close> that the evaluator built by the call returns have \<open>N + 1\<close> values too.
  Then \<^verbatim>\<open>calc\<close> of each of the three classes returns an array of \<open>N\<close> bins, and bin
  \<open>i\<close> is \<open>(g[i+1] - g[i]) * (m[i] + m[i+1]) / 2\<close> for every \<open>i\<close> in \<open>[0, N)\<close>.
\<close>

theorem calc_per_bin:
  assumes "mergex xlo xhi False = Inr x" and "g = map (\<lambda>v. v * 1000) x"
    and "length g = N + 1"
    and "constructed (snd (InverseCompton_calc oz s1 p1 xlo xhi)) = [a1]"
    and "specic oz a1 = Inr m1" and "length m1 = N + 1"
    and "constructed (snd (Synchrotron_calc oz s2 p2 xlo xhi)) = [a2]"
    and "specsy oz a2 = Inr m2" and "length m2 = N + 1"
    and "constructed (snd (PionDecay_calc oz s3 p3 xlo xhi)) = [a3]"
    and "specpp oz a3 = Inr m3" and "length m3 = N + 1"
  shows "(\<exists>ph. fst (InverseCompton_calc oz s1 p1 xlo xhi) = Inr ph \<and> length ph = N \<and>
            (\<forall>i<N. ph ! i = (g ! (i + 1) - g ! i) * (m1 ! i + m1 ! (i + 1)) / 2)) \<and>
         (\<exists>ph. fst (Synchrotron_calc oz s2 p2 xlo xhi) = Inr ph \<and> length ph = N \<and>
            (\<forall>i<N. ph ! i = (g ! (i + 1) - g ! i) * (m2 ! i + m2 ! (i + 1)) / 2)) \<and>
         (\<exists>ph. fst (PionDecay_calc oz s3 p3 xlo xhi) = Inr ph \<and> length ph = N \<and>
            (\<forall>i<N. ph ! i = (g ! (i + 1) - g ! i) * (m3 ! i + m3 ! (i + 1)) / 2))"
proof -
  have g: "g = np_scale x 1000" using assms(2) by (simp add: np_scale_def)
  have g1: "arg_outspec a1 = g"
    using InverseCompton_calc_args [OF assms(4) assms(1)] unfolding g by auto
  have g2: "arg_outspec a2 = g"
    using Synchrotron_calc_args [OF assms(7) assms(1)] unfolding g by auto
  have g3: "arg_outspec a3 = g"
    using PionDecay_calc_args [OF assms(10) assms(1)] unfolding g by auto
  have "fst (InverseCompton_calc oz s1 p1 xlo xhi) =
        Inr (map (\<lambda>i. (g ! (i + 1) - g ! i) * (m1 ! i + m1 ! (i + 1)) / 2) [0..<N])"
    using InverseCompton_per_bin [OF assms(4,5)] assms(3,6) by (simp add: g1)
  moreover have "fst (Synchrotron_calc oz s2 p2 xlo xhi) =
        Inr (map (\<lambda>i. (g ! (i + 1) - g ! i) * (m2 ! i + m2 ! (i + 1)) / 2) [0..<N])"
    using Synchrotron_per_bin [OF assms(7,8)] assms(3,9) by (simp add: g2)
  moreover have "fst (PionDecay_calc oz s3 p3 xlo xhi) =
        Inr (map (\<lambda>i. (g ! (i + 1) - g ! i) * (m3 ! i + m3 ! (i + 1)) / 2) [0..<N])"
    using PionDecay_per_bin [OF assms(10,11)] assms(3,12) by (simp add: g3)
  ultimately show ?thesis by simp
qed

theorem calc_per_bin_witness:
  "mergex [1, 2, 4] [2, 4, 8] False = Inr [1, 2, 4, 8] \<and>
   (\<exists>a1. constructed (snd (InverseCompton_calc oz_flat (InverseCompton_init ''IC'')
             [2, 20, 1, 1000, 1] [1, 2, 4] [2, 4, 8])) = [a1] \<and>
         specic oz_flat a1 = Inr [1, 1, 1, 1]) \<and>
   (\<exists>a2. constructed (snd (Synchrotron_calc oz_flat (Synchrotron_init ''IC'')
             [2, 20, 1, 1000, 1, 1] [1, 2, 4] [2, 4, 8])) = [a2] \<and>
         specsy oz_flat a2 = Inr [2, 2, 2, 2]) \<and>
   (\<exists>a3. constructed (snd (PionDecay_calc oz_flat (PionDecay_init ''pp'')
             [21 / 10, 60, 100, 0, 1] [1, 2, 4] [2, 4, 8])) = [a3] \<and>
         specpp oz_flat a3 = Inr [100, 200, 400, 800]) \<and>
   (\<exists>ph. fst (InverseCompton_calc oz_flat (InverseCompton_init ''IC'')
             [2, 20, 1, 1000, 1] [1, 2, 4] [2, 4, 8]) = Inr ph \<and> length ph = 3 \<and>
         ph ! 0 = 1000 \<and> ph ! 1 = 2000 \<and> ph ! 2 = 4000) \<and>
   (\<exists>ph. fst (Synchrotron_calc oz_flat (Synchrotron_init ''IC'')
             [2, 20, 1, 1000, 1, 1] [1, 2, 4] [2, 4, 8]) = Inr ph \<and> length ph = 3 \<and>
         ph ! 0 = 2000 \<and> ph ! 1 = 4000 \<and> ph ! 2 = 8000) \<and>
   (\<exists>ph. fst (PionDecay_calc oz_flat (PionDecay_init ''pp'')
             [21 / 10, 60, 100, 0, 1] [1, 2, 4] [2, 4, 8]) = Inr ph \<and> length ph = 3 \<and>
         ph ! 0 = 150000 \<and> ph ! 1 = 600000 \<and> ph ! 2 = 2400000)"
proof -
  note mx = mergex_124
  note c1 = constructed_InverseCompton_calc [OF mx, of oz_flat "InverseCompton_init ''IC''" 2 20 1 1000 1]
  note c2 = constructed_Synchrotron_calc [OF mx, of oz_flat "Synchrotron_init ''IC''" 2 20 1 1000 1 1]
  note c3 = constructed_PionDecay_calc [OF mx, of oz_flat "PionDecay_init ''pp''" "21 / 10" 60 100 0 1]
  have e1: "specic oz_flat \<lparr>arg_outspec = np_scale [1, 2, 4, 8] 1000, arg_norm = 1, arg_index = 2,
           arg_norm_energy = 20 * 10 ^ 12, arg_cutoff = Some (1000 * 10 ^ 12),
           arg_beta = 1, arg_B = None, arg_seedspec = [''CMB''], arg_nolog = True,
           arg_gmin = Some (10 ^ 5), arg_gmax = Some (10 ^ 10), arg_ngamd = Some 30,
           arg_Etrans = None\<rparr> = Inr [1, 1, 1, 1]"
    by (simp add: oz_flat_def np_scale_def)
  have e2: "specsy oz_flat \<lparr>arg_outspec = np_scale [1, 2, 4, 8] 1000, arg_norm = 1, arg_index = 2,
           arg_norm_energy = 20 * 10 ^ 12, arg_cutoff = Some (1000 * 10 ^ 12),
           arg_beta = 1, arg_B = Some 1, arg_seedspec = [''CMB''], arg_nolog = True,
           arg_gmin = Some (10 ^ 5), arg_gmax = Some (10 ^ 10), arg_ngamd = Some 30,
           arg_Etrans = None\<rparr> = Inr [2, 2, 2, 2]"
    by (simp add: oz_flat_def np_scale_def)
  have e3: "specpp oz_flat \<lparr>arg_outspec = np_scale [1, 2, 4, 8] 1000, arg_norm = 100,
           arg_index = 21 / 10,
           arg_norm_energy = 60 * 10 ^ 12,
           arg_cutoff = (if (0::real) = 0 then None else Some (0 * 10 ^ 12)),
           arg_beta = 1, arg_B = None, arg_seedspec = [''CMB''], arg_nolog = True,
           arg_gmin = None, arg_gmax = None, arg_ngamd = None,
           arg_Etrans = Some (10 ^ 10)\<rparr> = Inr [100, 200, 400, 800]"
    by (simp add: oz_flat_def np_scale_def)
  have "(\<exists>ph. fst (InverseCompton_calc oz_flat (InverseCompton_init ''IC'')
             [2, 20, 1, 1000, 1] [1, 2, 4] [2, 4, 8]) = Inr ph \<and> length ph = 3 \<and>
            (\<forall>i<3. ph ! i = ([1000, 2000, 4000, 8000] ! (i + 1) - [1000, 2000, 4000, 8000] ! i) *
                ([1, 1, 1, 1] ! i + [1, 1, 1, 1] ! (i + 1)) / 2)) \<and>
        (\<exists>ph. fst (Synchrotron_calc oz_flat (Synchrotron_init ''IC'')
             [2, 20, 1, 1000, 1, 1] [1, 2, 4] [2, 4, 8]) = Inr ph \<and> length ph = 3 \<and>
            (\<forall>i<3. ph ! i = ([1000, 2000, 4000, 8000] ! (i + 1) - [1000, 2000, 4000, 8000] ! i) *
                ([2, 2, 2, 2] ! i + [2, 2, 2, 2] ! (i + 1)) / 2)) \<and>
        (\<exists>ph. fst (PionDecay_calc oz_flat (PionDecay_init ''pp'')
             [21 / 10, 60, 100, 0, 1] [1, 2, 4] [2, 4, 8]) = Inr ph \<and> length ph = 3 \<and>
            (\<forall>i<3. ph ! i = ([1000, 2000, 4000, 8000] ! (i + 1) - [1000, 2000, 4000, 8000] ! i) *
                ([100, 200, 400, 800] ! i + [100, 200, 400, 800] ! (i + 1)) / 2))"
    by (rule calc_per_bin [OF mx _ _ c1 e1 _ c2 e2 _ c3 e3]) simp_all
  then have "(\<exists>ph. fst (InverseCompton_calc oz_flat (InverseCompton_init ''IC'')
             [2, 20, 1, 1000, 1] [1, 2, 4] [2, 4, 8]) = Inr ph \<and> length ph = 3 \<and>
         ph ! 0 = 1000 \<and> ph ! 1 = 2000 \<and> ph ! 2 = 4000) \<and>
   (\<exists>ph. fst (Synchrotron_calc oz_flat (Synchrotron_init ''IC'')
             [2, 20, 1, 1000, 1, 1] [1, 2, 4] [2, 4, 8]) = Inr ph \<and> length ph = 3 \<and>
         ph ! 0 = 2000 \<and> ph ! 1 = 4000 \<and> ph ! 2 = 8000) \<and>
   (\<exists>ph. fst (PionDecay_calc oz_flat (PionDecay_init ''pp'')
             [21 / 10, 60, 100, 0, 1] [1, 2, 4] [2, 4, 8]) = Inr ph \<and> length ph = 3 \<and>
         ph ! 0 = 150000 \<and> ph ! 1 = 600000 \<and> ph ! 2 = 2400000)"
    by (auto simp: all_less_three)
  with mx c1 c2 c3 e1 e2 e3 show ?thesis
    by (simp add: np_scale_def)
qed

text \<open>
  Claim C4.  For \<open>N \<ge> 1\<close> bins (\<open>xlo\<close> and \<open>xhi\<close> of length \<open>N\<close>), \<^verbatim>\<open>calc\<close> of each of
  the three classes builds one evaluator, on a grid of \<open>N + 1\<close> points, and whenever
  that evaluator returns a curve with one value per grid point, \<^verbatim>\<open>calc\<close> returns an
  array of exactly \<open>N\<close> values: one per input bin, one less than the merged grid has
  points.  Nothing is asked of the library on any other arguments.
\<close>

theorem calc_length:
  assumes "length xlo = N" and "length xhi = N" and "1 \<le> N"
  shows "(\<exists>a. constructed (snd (InverseCompton_calc oz s1
                 [index, ref, ampl, cutoff, beta] xlo xhi)) = [a] \<and>
              length (arg_outspec a) = N + 1 \<and>
              (\<forall>m. specic oz a = Inr m \<and> length m = N + 1 \<longrightarrow>
                 (\<exists>ph. fst (InverseCompton_calc oz s1
                    [index, ref, ampl, cutoff, beta] xlo xhi) = Inr ph \<and> length ph = N))) \<and>
         (\<exists>a. constructed (snd (Synchrotron_calc oz s2
                 [index, ref, ampl, cutoff, beta, B] xlo xhi)) = [a] \<and>
              length (arg_outspec a) = N + 1 \<and>
              (\<forall>m. specsy oz a = Inr m \<and> length m = N + 1 \<longrightarrow>
                 (\<exists>ph. fst (Synchrotron_calc oz s2
                    [index, ref, ampl, cutoff, beta, B] xlo xhi) = Inr ph \<and> length ph = N))) \<and>
         (\<exists>a. constructed (snd (PionDecay_calc oz s3
                 [index, ref, ampl, cutoff, beta] xlo xhi)) = [a] \<and>
              length (arg_outspec a) = N + 1 \<and>
              (\<forall>m. specpp oz a = Inr m \<and> length m = N + 1 \<longrightarrow>
                 (\<exists>ph. fst (PionDecay_calc oz s3
                    [index, ref, ampl, cutoff, beta] xlo xhi) = Inr ph \<and> length ph = N)))"
proof -
  from assms have ne: "xhi \<noteq> []" by auto
  have mx: "mergex xlo xhi False = Inr (xlo @ [last xhi])"
    by (rule mergex_base_eq [OF ne])
  have len: "length (np_scale (xlo @ [last xhi]) 1000) = N + 1"
    using assms(1) by (simp add: np_scale_def)
  note c1 = constructed_InverseCompton_calc [OF mx, of oz s1 index ref ampl cutoff beta]
  note c2 = constructed_Synchrotron_calc [OF mx, of oz s2 index ref ampl cutoff beta B]
  note c3 = constructed_PionDecay_calc [OF mx, of oz s3 index ref ampl cutoff beta]
  have "\<exists>ph. fst (InverseCompton_calc oz s1 p xlo xhi) = Inr ph \<and> length ph = N"
    if "constructed (snd (InverseCompton_calc oz s1 p xlo xhi)) = [a]"
      and "length (arg_outspec a) = N + 1" and "specic oz a = Inr m" and "length m = N + 1"
    for p a m
    using InverseCompton_per_bin [OF that(1,3)] that(2,4) by simp
  moreover have "\<exists>ph. fst (Synchrotron_calc oz s2 p xlo xhi) = Inr ph \<and> length ph = N"
    if "constructed (snd (Synchrotron_calc oz s2 p xlo xhi)) = [a]"
      and "length (arg_outspec a) = N + 1" and "specsy oz a = Inr m" and "length m = N + 1"
    for p a m
    using Synchrotron_per_bin [OF that(1,3)] that(2,4) by simp
  moreover have "\<exists>ph. fst (PionDecay_calc oz s3 p xlo xhi) = Inr ph \<and> length ph = N"
    if "constructed (snd (PionDecay_calc oz s3 p xlo xhi)) = [a]"
      and "length (arg_outspec a) = N + 1" and "specpp oz a = Inr m" and "length m = N + 1"
    for p a m
    using PionDecay_per_bin [OF that(1,3)] that(2,4) by simp
  ultimately have
    per: "\<And>p a m. constructed (snd (InverseCompton_calc oz s1 p xlo xhi)) = [a] \<Longrightarrow>
        length (arg_outspec a) = N + 1 \<Longrightarrow> specic oz a = Inr m \<Longrightarrow> length m = N + 1 \<Longrightarrow>
        \<exists>ph. fst (InverseCompton_calc oz s1 p xlo xhi) = Inr ph \<and> length ph = N"
    "\<And>p a m. constructed (snd (Synchrotron_calc oz s2 p xlo xhi)) = [a] \<Longrightarrow>
        length (arg_outspec a) = N + 1 \<Longrightarrow> specsy oz a = Inr m \<Longrightarrow> length m = N + 1 \<Longrightarrow>
        \<exists>ph. fst (Synchrotron_calc oz s2 p xlo xhi) = Inr ph \<and> length ph = N"
    "\<And>p a m. constructed (snd (PionDecay_calc oz s3 p xlo xhi)) = [a] \<Longrightarrow>
        length (arg_outspec a) = N + 1 \<Longrightarrow> specpp oz a = Inr m \<Longrightarrow> length m = N + 1 \<Longrightarrow>
        \<exists>ph. fst (PionDecay_calc oz s3 p xlo xhi) = Inr ph \<and> length ph = N"
    by blast+
  obtain a1 where k1: "constructed (snd (InverseCompton_calc oz s1
      [index, ref, ampl, cutoff, beta] xlo xhi)) = [a1]" and l1: "length (arg_outspec a1) = N + 1"
    using c1 len by simp
  obtain a2 where k2: "constructed (snd (Synchrotron_calc oz s2
      [index, ref, ampl, cutoff, beta, B] xlo xhi)) = [a2]" and l2: "length (arg_outspec a2) = N + 1"
    using c2 len by simp
  obtain a3 where k3: "constructed (snd (PionDecay_calc oz s3
      [index, ref, ampl, cutoff, beta] xlo xhi)) = [a3]" and l3: "length (arg_outspec a3) = N + 1"
    using c3 len by simp
  from per(1) [OF k1 l1] per(2) [OF k2 l2] per(3) [OF k3 l3] k1 l1 k2 l2 k3 l3
  show ?thesis by blast
qed

lemma oz_picky_at_2:
  "arg_index a = 2 \<Longrightarrow> \<exists>m. specic oz_picky a = Inr m \<and> length m = length (arg_outspec a)"
  "arg_index a = 2 \<Longrightarrow> \<exists>m. specsy oz_picky a = Inr m \<and> length m = length (arg_outspec a)"
  "arg_index a = 2 \<Longrightarrow> \<exists>m. specpp oz_picky a = Inr m \<and> length m = length (arg_outspec a)"
  by (simp_all add: oz_picky_def oz_flat_def)

lemma InverseCompton_calc_propagates:
  assumes "mergex xlo xhi False = Inr x"
    and "specic oz \<lparr>arg_outspec = np_scale x 1000, arg_norm = ampl, arg_index = index,
           arg_norm_energy = ref * 10 ^ 12, arg_cutoff = Some (cutoff * 10 ^ 12),
           arg_beta = beta, arg_B = None, arg_seedspec = [''CMB''], arg_nolog = True,
           arg_gmin = Some (10 ^ 5), arg_gmax = Some (10 ^ 10), arg_ngamd = Some 30,
           arg_Etrans = None\<rparr> = Inl e"
  shows "fst (InverseCompton_calc oz self [index, ref, ampl, cutoff, beta] xlo xhi) = Inl e"
  using assms by (simp add: fst_InverseCompton_calc)

theorem calc_length_witness:
  "length [1, 2, 3, 4, 5 :: real] = 5 \<and> length [2, 3, 4, 5, 6 :: real] = 5 \<and> (1::nat) \<le> 5 \<and>
   (\<exists>ph. fst (InverseCompton_calc oz_picky (InverseCompton_init ''IC'')
            [2, 20, 1, 1000, 1] [1, 2, 3, 4, 5] [2, 3, 4, 5, 6]) = Inr ph \<and> length ph = 5) \<and>
   (\<exists>ph. fst (Synchrotron_calc oz_picky (Synchrotron_init ''IC'')
            [2, 20, 1, 1000, 1, 1] [1, 2, 3, 4, 5] [2, 3, 4, 5, 6]) = Inr ph \<and> length ph = 5) \<and>
   (\<exists>ph. fst (PionDecay_calc oz_picky (PionDecay_init ''pp'')
            [2, 20, 1, 1000, 1] [1, 2, 3, 4, 5] [2, 3, 4, 5, 6]) = Inr ph \<and> length ph = 5) \<and>
   fst (InverseCompton_calc oz_picky (InverseCompton_init ''IC'')
            [3, 20, 1, 1000, 1] [1, 2, 3, 4, 5] [2, 3, 4, 5, 6]) = Inl OZMError"
proof -
  have l: "length [1, 2, 3, 4, 5 :: real] = 5" "length [2, 3, 4, 5, 6 :: real] = 5" "(1::nat) \<le> 5"
    by simp_all
  have mx: "mergex [1, 2, 3, 4, 5] [2, 3, 4, 5, 6] False = Inr ([1, 2, 3, 4, 5] @ [last [2, 3, 4, 5, 6]])"
    by (rule mergex_base_eq) simp
  note t = calc_length [OF l, of oz_picky "InverseCompton_init ''IC''" 2 20 1 1000 1
      "Synchrotron_init ''IC''" 1 "PionDecay_init ''pp''"]
  from t obtain a1 where k1: "constructed (snd (InverseCompton_calc oz_picky
        (InverseCompton_init ''IC'') [2, 20, 1, 1000, 1] [1, 2, 3, 4, 5] [2, 3, 4, 5, 6])) = [a1]"
    and g1: "length (arg_outspec a1) = 5 + 1"
    and i1: "\<forall>m. specic oz_picky a1 = Inr m \<and> length m = 5 + 1 \<longrightarrow>
      (\<exists>ph. fst (InverseCompton_calc oz_picky (InverseCompton_init ''IC'')
            [2, 20, 1, 1000, 1] [1, 2, 3, 4, 5] [2, 3, 4, 5, 6]) = Inr ph \<and> length ph = 5)"
    by blast
  from t obtain a2 where k2: "constructed (snd (Synchrotron_calc oz_picky
        (Synchrotron_init ''IC'') [2, 20, 1, 1000, 1, 1] [1, 2, 3, 4, 5] [2, 3, 4, 5, 6])) = [a2]"
    and g2: "length (arg_outspec a2) = 5 + 1"
    and i2: "\<forall>m. specsy oz_picky a2 = Inr m \<and> length m = 5 + 1 \<longrightarrow>
      (\<exists>ph. fst (Synchrotron_calc oz_picky (Synchrotron_init ''IC'')
            [2, 20, 1, 1000, 1, 1] [1, 2, 3, 4, 5] [2, 3, 4, 5, 6]) = Inr ph \<and> length ph = 5)"
    by blast
  from t obtain a3 where k3: "constructed (snd (PionDecay_calc oz_picky
        (PionDecay_init ''pp'') [2, 20, 1, 1000, 1] [1, 2, 3, 4, 5] [2, 3, 4, 5, 6])) = [a3]"
    and g3: "length (arg_outspec a3) = 5 + 1"
    and i3: "\<forall>m. specpp oz_picky a3 = Inr m \<and> length m = 5 + 1 \<longrightarrow>
      (\<exists>ph. fst (PionDecay_calc oz_picky (PionDecay_init ''pp'')
            [2, 20, 1, 1000, 1] [1, 2, 3, 4, 5] [2, 3, 4, 5, 6]) = Inr ph \<and> length ph = 5)"
    by blast
  have "arg_index a1 = 2"
    using k1 unfolding constructed_InverseCompton_calc [OF mx] by auto
  from oz_picky_at_2(1) [OF this] i1 g1
  have r1: "\<exists>ph. fst (InverseCompton_calc oz_picky (InverseCompton_init ''IC'')
            [2, 20, 1, 1000, 1] [1, 2, 3, 4, 5] [2, 3, 4, 5, 6]) = Inr ph \<and> length ph = 5"
    by auto
  have "arg_index a2 = 2"
    using k2 unfolding constructed_Synchrotron_calc [OF mx] by auto
  from oz_picky_at_2(2) [OF this] i2 g2
  have r2: "\<exists>ph. fst (Synchrotron_calc oz_picky (Synchrotron_init ''IC'')
            [2, 20, 1, 1000, 1, 1] [1, 2, 3, 4, 5] [2, 3, 4, 5, 6]) = Inr ph \<and> length ph = 5"
    by auto
  have "arg_index a3 = 2"
    using k3 unfolding constructed_PionDecay_calc [OF mx] by auto
  from oz_picky_at_2(3) [OF this] i3 g3
  have r3: "\<exists>ph. fst (PionDecay_calc oz_picky (PionDecay_init ''pp'')
            [2, 20, 1, 1000, 1] [1, 2, 3, 4, 5] [2, 3, 4, 5, 6]) = Inr ph \<and> length ph = 5"
    by auto
  have r4: "fst (InverseCompton_calc oz_picky (InverseCompton_init ''IC'')
            [3, 20, 1, 1000, 1] [1, 2, 3, 4, 5] [2, 3, 4, 5, 6]) = Inl OZMError"
    by (rule InverseCompton_calc_propagates [OF mx]) (simp add: oz_picky_def)
  from l r1 r2 r3 r4 show ?thesis by (intro conjI)
qed

text \<open>
  Claim C5.  \<^verbatim>\<open>PionDecay.calc\<close> builds exactly one evaluator.  When the cutoff
  parameter is exactly zero, the cutoff it passes is the absent value \<^verbatim>\<open>None\<close>; for any
  other cutoff \<open>c\<close> it passes \<open>c * 1e12\<close>.
\<close>

theorem PionDecay_cutoff_sentinel:
  assumes "mergex xlo xhi False = Inr x"
  shows "(cutoff = 0 \<longrightarrow>
            map arg_cutoff (constructed (snd (PionDecay_calc oz self
              [index, ref, ampl, cutoff, beta] xlo xhi))) = [None]) \<and>
         (cutoff \<noteq> 0 \<longrightarrow>
            map arg_cutoff (constructed (snd (PionDecay_calc oz self
              [index, ref, ampl, cutoff, beta] xlo xhi))) = [Some (cutoff * 10 ^ 12)])"
  by (simp add: constructed_PionDecay_calc [OF assms])

theorem PionDecay_cutoff_sentinel_witness:
  "mergex [1, 2, 4] [2, 4, 8] False = Inr [1, 2, 4, 8] \<and>
   map arg_cutoff (constructed (snd (PionDecay_calc oz_flat (PionDecay_init ''pp'')
     [21 / 10, 60, 100, 0, 1] [1, 2, 4] [2, 4, 8]))) = [None] \<and>
   map arg_cutoff (constructed (snd (PionDecay_calc oz_flat (PionDecay_init ''pp'')
     [21 / 10, 60, 100, 3, 1] [1, 2, 4] [2, 4, 8]))) = [Some 3000000000000]"
proof -
  note mx = mergex_124
  from PionDecay_cutoff_sentinel [OF mx, of 0 oz_flat "PionDecay_init ''pp''" "21 / 10" 60 100 1]
    PionDecay_cutoff_sentinel [OF mx, of 3 oz_flat "PionDecay_init ''pp''" "21 / 10" 60 100 1]
    mx
  show ?thesis by simp
qed

text \<open>
  Claim C6.  The energy grid that \<^verbatim>\<open>calc\<close> passes to the evaluator is the merged grid
  of the bin edges (given in keV) multiplied pointwise by 1000, and the reference energy
  is passed multiplied by \<open>1e12\<close>, in all three classes.  The cutoff is passed multiplied
  by \<open>1e12\<close> by \<^verbatim>\<open>InverseCompton.calc\<close> and \<^verbatim>\<open>Synchrotron.calc\<close>, the two methods the
  claim cites, and by \<^verbatim>\<open>PionDecay.calc\<close> for every cutoff other than its sentinel zero.
\<close>

theorem calc_unit_conversion:
  assumes "mergex xlo xhi False = Inr x"
  shows "(\<exists>a. constructed (snd (InverseCompton_calc oz s1
                 [index, ref, ampl, cutoff, beta] xlo xhi)) = [a] \<and>
              arg_outspec a = map (\<lambda>v. v * 1000) x \<and>
              arg_norm_energy a = ref * 10 ^ 12 \<and>
              arg_cutoff a = Some (cutoff * 10 ^ 12)) \<and>
         (\<exists>a. constructed (snd (Synchrotron_calc oz s2
                 [index, ref, ampl, cutoff, beta, B] xlo xhi)) = [a] \<and>
              arg_outspec a = map (\<lambda>v. v * 1000) x \<and>
              arg_norm_energy a = ref * 10 ^ 12 \<and>
              arg_cutoff a = Some (cutoff * 10 ^ 12)) \<and>
         (\<exists>a. constructed (snd (PionDecay_calc oz s3
                 [index, ref, ampl, cutoff, beta] xlo xhi)) = [a] \<and>
              arg_outspec a = map (\<lambda>v. v * 1000) x \<and>
              arg_norm_energy a = ref * 10 ^ 12 \<and>
              (cutoff \<noteq> 0 \<longrightarrow> arg_cutoff a = Some (cutoff * 10 ^ 12)))"
  by (simp add: constructed_InverseCompton_calc [OF assms]
      constructed_Synchrotron_calc [OF assms] constructed_PionDecay_calc [OF assms]
      np_scale_def)

theorem calc_unit_conversion_witness:
  "mergex [1, 2, 4] [2, 4, 8] False = Inr [1, 2, 4, 8] \<and>
   (\<exists>a. constructed (snd (InverseCompton_calc oz_flat (InverseCompton_init ''IC'')
            [2, 20, 1, 5, 1] [1, 2, 4] [2, 4, 8])) = [a] \<and>
         arg_outspec a = [1000, 2000, 4000, 8000] \<and>
         arg_norm_energy a = 20000000000000 \<and> arg_cutoff a = Some 5000000000000) \<and>
   (\<exists>a. constructed (snd (Synchrotron_calc oz_flat (Synchrotron_init ''IC'')
            [2, 20, 1, 5, 1, 1] [1, 2, 4] [2, 4, 8])) = [a] \<and>
         arg_outspec a = [1000, 2000, 4000, 8000] \<and>
         arg_norm_energy a = 20000000000000 \<and> arg_cutoff a = Some 5000000000000) \<and>
   (\<exists>a. constructed (snd (PionDecay_calc oz_flat (PionDecay_init ''pp'')
            [2, 20, 1, 5, 1] [1, 2, 4] [2, 4, 8])) = [a] \<and>
         arg_outspec a = [1000, 2000, 4000, 8000] \<and>
         arg_norm_energy a = 20000000000000 \<and> arg_cutoff a = Some 5000000000000)"
proof -
  note mx = mergex_124
  from calc_unit_conversion [OF mx, of oz_flat "InverseCompton_init ''IC''" 2 20 1 5 1
      "Synchrotron_init ''IC''" 1 "PionDecay_init ''pp''"] mx
  show ?thesis by simp
qed

text \<open>
  Claim C10.  The inverse-Compton and synchrotron variants always pass
  \<open>cutoff * 1e12\<close> to the evaluator: a cutoff parameter of exactly zero is passed as the
  zero energy \<open>0.0\<close>, never as the absent value.  Only the pion-decay variant turns a
  zero cutoff into \<^verbatim>\<open>None\<close>.
\<close>

theorem electron_cutoff_never_absent:
  assumes "mergex xlo xhi False = Inr x"
  shows "map arg_cutoff (constructed (snd (InverseCompton_calc oz s1
           [index, ref, ampl, cutoff, beta] xlo xhi))) = [Some (cutoff * 10 ^ 12)] \<and>
         map arg_cutoff (constructed (snd (Synchrotron_calc oz s2
           [index, ref, ampl, cutoff, beta, B] xlo xhi))) = [Some (cutoff * 10 ^ 12)] \<and>
         map arg_cutoff (constructed (snd (InverseCompton_calc oz s1
           [index, ref, ampl, 0, beta] xlo xhi))) = [Some 0] \<and>
         map arg_cutoff (constructed (snd (Synchrotron_calc oz s2
           [index, ref, ampl, 0, beta, B] xlo xhi))) = [Some 0] \<and>
         map arg_cutoff (constructed (snd (PionDecay_calc oz s3
           [index, ref, ampl, 0, beta] xlo xhi))) = [None]"
  by (simp add: constructed_InverseCompton_calc [OF assms]
      constructed_Synchrotron_calc [OF assms] constructed_PionDecay_calc [OF assms])

theorem electron_cutoff_never_absent_witness:
  "mergex [1, 2, 4] [2, 4, 8] False = Inr [1, 2, 4, 8] \<and>
   map arg_cutoff (constructed (snd (InverseCompton_calc oz_flat (InverseCompton_init ''IC'')
     [2, 20, 1, 0, 1] [1, 2, 4] [2, 4, 8]))) = [Some 0] \<and>
   map arg_cutoff (constructed (snd (Synchrotron_calc oz_flat (Synchrotron_init ''IC'')
     [2, 20, 1, 0, 1, 1] [1, 2, 4] [2, 4, 8]))) = [Some 0] \<and>
   map arg_cutoff (constructed (snd (PionDecay_calc oz_flat (PionDecay_init ''pp'')
     [2, 20, 1, 0, 1] [1, 2, 4] [2, 4, 8]))) = [None]"
proof -
  note mx = mergex_124
  from electron_cutoff_never_absent [OF mx, of oz_flat "InverseCompton_init ''IC''" 2 20 1 0 1
      "Synchrotron_init ''IC''" 1 "PionDecay_init ''pp''"] mx
  show ?thesis by simp
qed

section \<open>The guess methods\<close>

lemma rescale_ampl_Inr:
  assumes "rescale_ampl ampl model dep xlo xhi = Inr a"
  shows "\<exists>modflux width y obsflux.
           np_trapz model xlo = Inr modflux \<and> np_binop (-) xhi xlo = Inr width \<and>
           np_binop (*) dep width = Inr y \<and> np_trapz y xlo = Inr obsflux \<and>
           modflux \<noteq> 0 \<and>
           pmin ampl \<le> val ampl * obsflux / modflux \<and>
           val ampl * obsflux / modflux \<le> pmax ampl \<and>
           a = ampl\<lparr>val := val ampl * obsflux / modflux\<rparr>"
  using assms
  by (auto simp: rescale_ampl_def and_then_def float_div_def Parameter_set_def
      split: sum.splits if_splits pyfloat.splits)

lemma rescale_ampl_val:
  "rescale_ampl ampl model dep xlo xhi = Inr a \<Longrightarrow> a = ampl\<lparr>val := val a\<rparr>"
  by (drule rescale_ampl_Inr) auto

lemma InverseCompton_guess_cases:
  "(\<exists>e. InverseCompton_guess oz self dep xlo xhi =
          (Inl e, self, snd (InverseCompton_calc oz self (map val (pars self)) xlo xhi))) \<or>
   (\<exists>model a. fst (InverseCompton_calc oz self (map val (pars self)) xlo xhi) = Inr model \<and>
       rescale_ampl (par_ampl self) model dep xlo xhi = Inr a \<and>
       InverseCompton_guess oz self dep xlo xhi =
         (Inr (), self\<lparr>par_ampl := a\<rparr>,
          snd (InverseCompton_calc oz self (map val (pars self)) xlo xhi)))"
  by (auto simp: InverseCompton_guess_def Let_def and_then_def split: sum.splits)

lemma InverseCompton_guess_completes:
  assumes "outcome (InverseCompton_guess oz self dep xlo xhi) = Inr ()"
  shows "\<exists>model modflux width y obsflux.
           fst (InverseCompton_calc oz self (map val (pars self)) xlo xhi) = Inr model \<and>
           np_trapz model xlo = Inr modflux \<and>
           np_binop (-) xhi xlo = Inr width \<and> np_binop (*) dep width = Inr y \<and>
           np_trapz y xlo = Inr obsflux \<and> modflux \<noteq> 0 \<and>
           val (par_ampl (instance_after (InverseCompton_guess oz self dep xlo xhi))) =
             val (par_ampl self) * obsflux / modflux"
proof -
  from assms InverseCompton_guess_cases [of oz self dep xlo xhi]
  obtain model a where m: "fst (InverseCompton_calc oz self (map val (pars self)) xlo xhi) = Inr model"
    and a: "rescale_ampl (par_ampl self) model dep xlo xhi = Inr a"
    and g: "instance_after (InverseCompton_guess oz self dep xlo xhi) = self\<lparr>par_ampl := a\<rparr>"
    by (auto simp: outcome_def instance_after_def)
  from rescale_ampl_Inr [OF a] m show ?thesis
    unfolding g by auto
qed

lemma InverseCompton_guess_raises:
  assumes "outcome (InverseCompton_guess oz self dep xlo xhi) = Inl e"
  shows "instance_after (InverseCompton_guess oz self dep xlo xhi) = self"
  using assms InverseCompton_guess_cases [of oz self dep xlo xhi]
  by (auto simp: outcome_def instance_after_def)

lemma InverseCompton_guess_run:
  assumes "fst (InverseCompton_calc oz self (map val (pars self)) xlo xhi) = Inr model"
  shows "outcome (InverseCompton_guess oz self dep xlo xhi) =
           (case rescale_ampl (par_ampl self) model dep xlo xhi of
              Inl e \<Rightarrow> Inl e | Inr a \<Rightarrow> Inr ())"
    and "instance_after (InverseCompton_guess oz self dep xlo xhi) =
           (case rescale_ampl (par_ampl self) model dep xlo xhi of
              Inl e \<Rightarrow> self | Inr a \<Rightarrow> self\<lparr>par_ampl := a\<rparr>)"
  by (simp_all add: InverseCompton_guess_def Let_def assms outcome_def instance_after_def
      split: sum.splits)

lemma Synchrotron_guess_cases:
  "(\<exists>e. Synchrotron_guess oz self dep xlo xhi =
          (Inl e, self, snd (Synchrotron_calc oz self (map val (Synchrotron_pars self)) xlo xhi))) \<or>
   (\<exists>model a. fst (Synchrotron_calc oz self (map val (Synchrotron_pars self)) xlo xhi) = Inr model \<and>
       rescale_ampl (par_ampl self) model dep xlo xhi = Inr a \<and>
       Synchrotron_guess oz self dep xlo xhi =
         (Inr (), self\<lparr>par_ampl := a\<rparr>,
          snd (Synchrotron_calc oz self (map val (Synchrotron_pars self)) xlo xhi)))"
  by (auto simp: Synchrotron_guess_def Let_def and_then_def split: sum.splits)

lemma Synchrotron_guess_completes:
  assumes "outcome (Synchrotron_guess oz self dep xlo xhi) = Inr ()"
  shows "\<exists>model modflux width y obsflux.
           fst (Synchrotron_calc oz self (map val (Synchrotron_pars self)) xlo xhi) = Inr model \<and>
           np_trapz model xlo = Inr modflux \<and>
           np_binop (-) xhi xlo = Inr width \<and> np_binop (*) dep width = Inr y \<and>
           np_trapz y xlo = Inr obsflux \<and> modflux \<noteq> 0 \<and>
           val (par_ampl (instance_after (Synchrotron_guess oz self dep xlo xhi))) =
             val (par_ampl self) * obsflux / modflux"
proof -
  from assms Synchrotron_guess_cases [of oz self dep xlo xhi]
  obtain model a where m: "fst (Synchrotron_calc oz self (map val (Synchrotron_pars self)) xlo xhi) = Inr model"
    and a: "rescale_ampl (par_ampl self) model dep xlo xhi = Inr a"
    and g: "instance_after (Synchrotron_guess oz self dep xlo xhi) = self\<lparr>par_ampl := a\<rparr>"
    by (auto simp: outcome_def instance_after_def)
  from rescale_ampl_Inr [OF a] m show ?thesis
    unfolding g by auto
qed

lemma Synchrotron_guess_raises:
  assumes "outcome (Synchrotron_guess oz self dep xlo xhi) = Inl e"
  shows "instance_after (Synchrotron_guess oz self dep xlo xhi) = self"
  using assms Synchrotron_guess_cases [of oz self dep xlo xhi]
  by (auto simp: outcome_def instance_after_def)

lemma Synchrotron_guess_run:
  assumes "fst (Synchrotron_calc oz self (map val (Synchrotron_pars self)) xlo xhi) = Inr model"
  shows "outcome (Synchrotron_guess oz self dep xlo xhi) =
           (case rescale_ampl (par_ampl self) model dep xlo xhi of
              Inl e \<Rightarrow> Inl e | Inr a \<Rightarrow> Inr ())"
    and "instance_after (Synchrotron_guess oz self dep xlo xhi) =
           (case rescale_ampl (par_ampl self) model dep xlo xhi of
              Inl e \<Rightarrow> self | Inr a \<Rightarrow> self\<lparr>par_ampl := a\<rparr>)"
  by (simp_all add: Synchrotron_guess_def Let_def assms outcome_def instance_after_def
      split: sum.splits)

lemma PionDecay_guess_cases:
  "(\<exists>e. PionDecay_guess oz self dep xlo xhi =
          (Inl e, self, snd (PionDecay_calc oz self (map val (pars self)) xlo xhi))) \<or>
   (\<exists>model a. fst (PionDecay_calc oz self (map val (pars self)) xlo xhi) = Inr model \<and>
       rescale_ampl (par_ampl self) model dep xlo xhi = Inr a \<and>
       PionDecay_guess oz self dep xlo xhi =
         (Inr (), self\<lparr>par_ampl := a\<rparr>,
          snd (PionDecay_calc oz self (map val (pars self)) xlo xhi)))"
  by (auto simp: PionDecay_guess_def Let_def and_then_def split: sum.splits)

lemma PionDecay_guess_completes:
  assumes "outcome (PionDecay_guess oz self dep xlo xhi) = Inr ()"
  shows "\<exists>model modflux width y obsflux.
           fst (PionDecay_calc oz self (map val (pars self)) xlo xhi) = Inr model \<and>
           np_trapz model xlo = Inr modflux \<and>
           np_binop (-) xhi xlo = Inr width \<and> np_binop (*) dep width = Inr y \<and>
           np_trapz y xlo = Inr obsflux \<and> modflux \<noteq> 0 \<and>
           val (par_ampl (instance_after (PionDecay_guess oz self dep xlo xhi))) =
             val (par_ampl self) * obsflux / modflux"
proof -
  from assms PionDecay_guess_cases [of oz self dep xlo xhi]
  obtain model a where m: "fst (PionDecay_calc oz self (map val (pars self)) xlo xhi) = Inr model"
    and a: "rescale_ampl (par_ampl self) model dep xlo xhi = Inr a"
    and g: "instance_after (PionDecay_guess oz self dep xlo xhi) = self\<lparr>par_ampl := a\<rparr>"
    by (auto simp: outcome_def instance_after_def)
  from rescale_ampl_Inr [OF a] m show ?thesis
    unfolding g by auto
qed

lemma PionDecay_guess_raises:
  assumes "outcome (PionDecay_guess oz self dep xlo xhi) = Inl e"
  shows "instance_after (PionDecay_guess oz self dep xlo xhi) = self"
  using assms PionDecay_guess_cases [of oz self dep xlo xhi]
  by (auto simp: outcome_def instance_after_def)

lemma PionDecay_guess_run:
  assumes "fst (PionDecay_calc oz self (map val (pars self)) xlo xhi) = Inr model"
  shows "outcome (PionDecay_guess oz self dep xlo xhi) =
           (case rescale_ampl (par_ampl self) model dep xlo xhi of
              Inl e \<Rightarrow> Inl e | Inr a \<Rightarrow> Inr ())"
    and "instance_after (PionDecay_guess oz self dep xlo xhi) =
           (case rescale_ampl (par_ampl self) model dep xlo xhi of
              Inl e \<Rightarrow> self | Inr a \<Rightarrow> self\<lparr>par_ampl := a\<rparr>)"
  by (simp_all add: PionDecay_guess_def Let_def assms outcome_def instance_after_def
      split: sum.splits)

lemma rescale_on_124:
  "rescale_ampl ampl [a, b, c] [d1, d2, d3] [1, 2, 4] [2, 4, 8] =
     Parameter_set ampl
       (float_div (val ampl * ((2 * d2 + d1) / 2 + (2 * (4 * d3 + 2 * d2)) / 2))
          ((b + a) / 2 + (2 * (c + b)) / 2))"
  by (simp add: rescale_ampl_def trapz_124 np_binop_def mult.commute)

lemma init_vals:
  "map val (pars (InverseCompton_init nm)) = [2, 20, 1, 10 ^ 15, 1]"
  "map val (Synchrotron_pars (Synchrotron_init nm)) = [2, 20, 1, 10 ^ 15, 1, 1]"
  "map val (pars (PionDecay_init nm)) = [21 / 10, 60, 100, 0, 1]"
  by (simp_all add: pars_def Synchrotron_pars_def InverseCompton_init_def Synchrotron_init_def
      PionDecay_init_def Parameter_def)

lemma init_ampl:
  "par_ampl (InverseCompton_init nm) = Parameter nm ''ampl'' 1 (Some 0) None False"
  "par_ampl (Synchrotron_init nm) = Parameter nm ''ampl'' 1 (Some 0) None False"
  "par_ampl (PionDecay_init nm) = Parameter nm ''ampl'' 100 (Some 0) None False"
  by (simp_all add: InverseCompton_init_def Synchrotron_init_def PionDecay_init_def)

lemma init_calc_124:
  "fst (InverseCompton_calc oz_flat (InverseCompton_init nm)
     (map val (pars (InverseCompton_init nm))) [1, 2, 4] [2, 4, 8]) = Inr [1000, 2000, 4000]"
  "fst (Synchrotron_calc oz_flat (Synchrotron_init nm)
     (map val (Synchrotron_pars (Synchrotron_init nm))) [1, 2, 4] [2, 4, 8]) = Inr [2000, 4000, 8000]"
  "fst (PionDecay_calc oz_flat (PionDecay_init nm)
     (map val (pars (PionDecay_init nm))) [1, 2, 4] [2, 4, 8]) = Inr [150000, 600000, 2400000]"
  by (simp_all only: init_vals InverseCompton_calc_124 Synchrotron_calc_124 PionDecay_calc_124)
     simp_all

lemma rescale_runs:
  "rescale_ampl (Parameter nm ''ampl'' 1 (Some 0) None False) [1000, 2000, 4000] [1, 1, 1]
     [1, 2, 4] [2, 4, 8] = Inr ((Parameter nm ''ampl'' 1 (Some 0) None False)\<lparr>val := 1 / 1000\<rparr>)"
  "rescale_ampl (Parameter nm ''ampl'' 1 (Some 0) None False) [2000, 4000, 8000] [1, 1, 1]
     [1, 2, 4] [2, 4, 8] = Inr ((Parameter nm ''ampl'' 1 (Some 0) None False)\<lparr>val := 1 / 2000\<rparr>)"
  "rescale_ampl (Parameter nm ''ampl'' 100 (Some 0) None False) [150000, 600000, 2400000]
     [1, 1, 1] [1, 2, 4] [2, 4, 8] =
     Inr ((Parameter nm ''ampl'' 100 (Some 0) None False)\<lparr>val := 1 / 4500\<rparr>)"
  "rescale_ampl (Parameter nm ''ampl'' 1 (Some 0) None False) [1000, 2000, 4000] [1, 1, - 3]
     [1, 2, 4] [2, 4, 8] = Inl ParameterErr"
  by (simp_all add: rescale_on_124 float_div_def Parameter_set_def Parameter_def hugeval_def)

lemma guess_runs:
  "outcome (InverseCompton_guess oz_flat (InverseCompton_init nm) [1, 1, 1] [1, 2, 4] [2, 4, 8]) = Inr ()"
  "outcome (Synchrotron_guess oz_flat (Synchrotron_init nm) [1, 1, 1] [1, 2, 4] [2, 4, 8]) = Inr ()"
  "outcome (PionDecay_guess oz_flat (PionDecay_init nm) [1, 1, 1] [1, 2, 4] [2, 4, 8]) = Inr ()"
  "outcome (InverseCompton_guess oz_flat (InverseCompton_init nm) [1, 1, - 3] [1, 2, 4] [2, 4, 8]) =
     Inl ParameterErr"
  by (simp_all add: InverseCompton_guess_run(1) [OF init_calc_124(1)]
      Synchrotron_guess_run(1) [OF init_calc_124(2)]
      PionDecay_guess_run(1) [OF init_calc_124(3)] init_ampl rescale_runs)

lemma guess_run_vals:
  "val (par_ampl (instance_after (InverseCompton_guess oz_flat (InverseCompton_init nm)
     [1, 1, 1] [1, 2, 4] [2, 4, 8]))) = 1 / 1000"
  "val (par_ampl (instance_after (Synchrotron_guess oz_flat (Synchrotron_init nm)
     [1, 1, 1] [1, 2, 4] [2, 4, 8]))) = 1 / 2000"
  "val (par_ampl (instance_after (PionDecay_guess oz_flat (PionDecay_init nm)
     [1, 1, 1] [1, 2, 4] [2, 4, 8]))) = 1 / 4500"
  "val (par_ampl (instance_after (InverseCompton_guess oz_flat (InverseCompton_init nm)
     [1, 1, - 3] [1, 2, 4] [2, 4, 8]))) = 1"
  by (simp_all add: InverseCompton_guess_run(2) [OF init_calc_124(1)]
      Synchrotron_guess_run(2) [OF init_calc_124(2)]
      PionDecay_guess_run(2) [OF init_calc_124(3)] init_ampl rescale_runs)
     (simp_all add: Parameter_def)

section \<open>The claims about guess\<close>

text \<open>
  Claim C7, as the code has it.  After a call to \<^verbatim>\<open>guess\<close> that completes, the
  amplitude is its previous value times \<open>obsflux / modflux\<close>, where \<open>modflux\<close> is the
  trapezoidal integral over the low edges \<^verbatim>\<open>xlo\<close> of the model evaluated at the
  current parameter values (the old amplitude among them), and \<open>obsflux\<close> is the
  trapezoidal integral over \<^verbatim>\<open>xlo\<close> of the observed flux multiplied by the bin widths,
  \<^verbatim>\<open>dep*(xhi-xlo)\<close>.  A call that raises leaves the amplitude as it was.  (The
  outcome \<open>NonFinite\<close> is no exception: there the ratio is \<open>0/0\<close> and the code stores
  a NaN.)
\<close>

theorem guess_rescales_amplitude:
  "(outcome (InverseCompton_guess oz s1 dep xlo xhi) = Inr () \<longrightarrow>
     (\<exists>model modflux width y obsflux.
        fst (InverseCompton_calc oz s1 (map val (pars s1)) xlo xhi) = Inr model \<and>
        np_trapz model xlo = Inr modflux \<and>
        np_binop (-) xhi xlo = Inr width \<and> np_binop (*) dep width = Inr y \<and>
        np_trapz y xlo = Inr obsflux \<and> modflux \<noteq> 0 \<and>
        val (par_ampl (instance_after (InverseCompton_guess oz s1 dep xlo xhi))) =
          val (par_ampl s1) * obsflux / modflux)) \<and>
   (\<forall>e. outcome (InverseCompton_guess oz s1 dep xlo xhi) = Inl e \<and> e \<noteq> NonFinite \<longrightarrow>
      val (par_ampl (instance_after (InverseCompton_guess oz s1 dep xlo xhi))) = val (par_ampl s1)) \<and>
   (outcome (Synchrotron_guess oz s2 dep xlo xhi) = Inr () \<longrightarrow>
     (\<exists>model modflux width y obsflux.
        fst (Synchrotron_calc oz s2 (map val (Synchrotron_pars s2)) xlo xhi) = Inr model \<and>
        np_trapz model xlo = Inr modflux \<and>
        np_binop (-) xhi xlo = Inr width \<and> np_binop (*) dep width = Inr y \<and>
        np_trapz y xlo = Inr obsflux \<and> modflux \<noteq> 0 \<and>
        val (par_ampl (instance_after (Synchrotron_guess oz s2 dep xlo xhi))) =
          val (par_ampl s2) * obsflux / modflux)) \<and>
   (\<forall>e. outcome (Synchrotron_guess oz s2 dep xlo xhi) = Inl e \<and> e \<noteq> NonFinite \<longrightarrow>
      val (par_ampl (instance_after (Synchrotron_guess oz s2 dep xlo xhi))) = val (par_ampl s2)) \<and>
   (outcome (PionDecay_guess oz s3 dep xlo xhi) = Inr () \<longrightarrow>
     (\<exists>model modflux width y obsflux.
        fst (PionDecay_calc oz s3 (map val (pars s3)) xlo xhi) = Inr model \<and>
        np_trapz model xlo = Inr modflux \<and>
        np_binop (-) xhi xlo = Inr width \<and> np_binop (*) dep width = Inr y \<and>
        np_trapz y xlo = Inr obsflux \<and> modflux \<noteq> 0 \<and>
        val (par_ampl (instance_after (PionDecay_guess oz s3 dep xlo xhi))) =
          val (par_ampl s3) * obsflux / modflux)) \<and>
   (\<forall>e. outcome (PionDecay_guess oz s3 dep xlo xhi) = Inl e \<and> e \<noteq> NonFinite \<longrightarrow>
      val (par_ampl (instance_after (PionDecay_guess oz s3 dep xlo xhi))) = val (par_ampl s3))"
  using InverseCompton_guess_completes [of oz s1 dep xlo xhi]
    Synchrotron_guess_completes [of oz s2 dep xlo xhi]
    PionDecay_guess_completes [of oz s3 dep xlo xhi]
    InverseCompton_guess_raises [of oz s1 dep xlo xhi]
    Synchrotron_guess_raises [of oz s2 dep xlo xhi]
    PionDecay_guess_raises [of oz s3 dep xlo xhi]
  by simp

theorem guess_rescales_amplitude_witness:
  "outcome (InverseCompton_guess oz_flat (InverseCompton_init ''IC'') [1, 1, 1] [1, 2, 4] [2, 4, 8]) = Inr () \<and>
   outcome (Synchrotron_guess oz_flat (Synchrotron_init ''IC'') [1, 1, 1] [1, 2, 4] [2, 4, 8]) = Inr () \<and>
   outcome (PionDecay_guess oz_flat (PionDecay_init ''pp'') [1, 1, 1] [1, 2, 4] [2, 4, 8]) = Inr () \<and>
   outcome (InverseCompton_guess oz_flat (InverseCompton_init ''IC'') [1, 1, - 3] [1, 2, 4] [2, 4, 8]) =
     Inl ParameterErr \<and>
   val (par_ampl (instance_after (InverseCompton_guess oz_flat (InverseCompton_init ''IC'')
     [1, 1, 1] [1, 2, 4] [2, 4, 8]))) = 1 * (15 / 2) / 7500 \<and>
   val (par_ampl (instance_after (Synchrotron_guess oz_flat (Synchrotron_init ''IC'')
     [1, 1, 1] [1, 2, 4] [2, 4, 8]))) = 1 * (15 / 2) / 15000 \<and>
   val (par_ampl (instance_after (PionDecay_guess oz_flat (PionDecay_init ''pp'')
     [1, 1, 1] [1, 2, 4] [2, 4, 8]))) = 100 * (15 / 2) / 3375000 \<and>
   val (par_ampl (instance_after (InverseCompton_guess oz_flat (InverseCompton_init ''IC'')
     [1, 1, - 3] [1, 2, 4] [2, 4, 8]))) = 1"
proof -
  note t = guess_rescales_amplitude [of oz_flat "InverseCompton_init ''IC''" "[1, 1, 1]"
      "[1, 2, 4]" "[2, 4, 8]" "Synchrotron_init ''IC''" "PionDecay_init ''pp''"]
  note u = guess_rescales_amplitude [of oz_flat "InverseCompton_init ''IC''" "[1, 1, - 3]"
      "[1, 2, 4]" "[2, 4, 8]" "Synchrotron_init ''IC''" "PionDecay_init ''pp''"]
  have w: "np_binop (-) [2, 4, 8] [1, 2, 4] = Inr [1, 2, 4]"
    "np_binop (*) [1, 1, 1] [1, 2, 4] = Inr [1, 2, 4]"
    by (simp_all add: np_binop_def)
  from t have "val (par_ampl (instance_after (InverseCompton_guess oz_flat
      (InverseCompton_init ''IC'') [1, 1, 1] [1, 2, 4] [2, 4, 8]))) = 1 * (15 / 2) / 7500"
    by (auto simp: guess_runs init_calc_124 trapz_124 w init_ampl Parameter_def)
  moreover from t have "val (par_ampl (instance_after (Synchrotron_guess oz_flat
      (Synchrotron_init ''IC'') [1, 1, 1] [1, 2, 4] [2, 4, 8]))) = 1 * (15 / 2) / 15000"
    by (auto simp: guess_runs init_calc_124 trapz_124 w init_ampl Parameter_def)
  moreover from t have "val (par_ampl (instance_after (PionDecay_guess oz_flat
      (PionDecay_init ''pp'') [1, 1, 1] [1, 2, 4] [2, 4, 8]))) = 100 * (15 / 2) / 3375000"
    by (auto simp: guess_runs init_calc_124 trapz_124 w init_ampl Parameter_def)
  moreover from u have "val (par_ampl (instance_after (InverseCompton_guess oz_flat
      (InverseCompton_init ''IC'') [1, 1, - 3] [1, 2, 4] [2, 4, 8]))) = 1"
    by (simp add: guess_runs init_ampl Parameter_def)
  ultimately show ?thesis
    by (simp only: guess_runs simp_thms)
qed

text \<open>
  Claim C7 as stated fails.  With bins \<open>[1,2]\<close>, \<open>[2,4]\<close>, \<open>[4,8]\<close> and observed flux
  \<open>[1,1,1]\<close> the call completes, and the new amplitude is not the old one times the
  trapezoidal integral of the observed flux itself over the model's integral: the code
  integrates \<^verbatim>\<open>dep*(xhi-xlo)\<close>.  With observed flux \<open>[1,1,-3]\<close> the rescaled amplitude
  would be negative, the framework refuses it (the amplitude has \<^verbatim>\<open>min=0\<close>), and the
  amplitude keeps its value, which is the ratio under neither reading.
\<close>

theorem guess_integrand_counterexample:
  "outcome (InverseCompton_guess oz_flat (InverseCompton_init ''IC'') [1, 1, 1] [1, 2, 4] [2, 4, 8]) = Inr () \<and>
   val (par_ampl (InverseCompton_init ''IC'')) = 1 \<and>
   fst (InverseCompton_calc oz_flat (InverseCompton_init ''IC'')
     (map val (pars (InverseCompton_init ''IC''))) [1, 2, 4] [2, 4, 8]) = Inr [1000, 2000, 4000] \<and>
   np_trapz [1000, 2000, 4000] [1, 2, 4] = Inr 7500 \<and>
   np_trapz [1, 1, 1] [1, 2, 4] = Inr 3 \<and>
   val (par_ampl (instance_after (InverseCompton_guess oz_flat (InverseCompton_init ''IC'')
     [1, 1, 1] [1, 2, 4] [2, 4, 8]))) \<noteq> 1 * 3 / 7500 \<and>
   outcome (InverseCompton_guess oz_flat (InverseCompton_init ''IC'') [1, 1, - 3] [1, 2, 4] [2, 4, 8]) =
     Inl ParameterErr \<and>
   np_trapz [1, 1, - 3] [1, 2, 4] = Inr (- 1) \<and>
   np_binop (-) [2, 4, 8] [1, 2, 4] = Inr [1, 2, 4] \<and>
   np_binop (*) [1, 1, - 3] [1, 2, 4] = Inr [1, 2, - 12] \<and>
   np_trapz [1, 2, - 12] [1, 2, 4] = Inr (- 17 / 2) \<and>
   val (par_ampl (instance_after (InverseCompton_guess oz_flat (InverseCompton_init ''IC'')
     [1, 1, - 3] [1, 2, 4] [2, 4, 8]))) \<noteq> 1 * (- 1) / 7500 \<and>
   val (par_ampl (instance_after (InverseCompton_guess oz_flat (InverseCompton_init ''IC'')
     [1, 1, - 3] [1, 2, 4] [2, 4, 8]))) \<noteq> 1 * (- 17 / 2) / 7500"
  by (simp add: guess_runs guess_run_vals init_calc_124 trapz_124 init_ampl Parameter_def
      np_binop_def)

section \<open>The memoising wrapper and the result store\<close>

lemma map_of_dict_set [simp]: "map_of (dict_set k v d) k = Some v"
  by (simp add: dict_set_def)

lemma store_sound_filter: "store_sound body d \<Longrightarrow> store_sound body (filter P d)"
  by (simp add: store_sound_def list_all_iff)

lemma store_sound_dict_pop: "store_sound body d \<Longrightarrow> store_sound body (dict_pop key d)"
  by (cases key) (simp_all add: dict_pop_def store_sound_filter)

lemma store_sound_dict_set:
  assumes "store_sound body d" and "length xlo = length xhi" and "body p xlo xhi = Inr v"
  shows "store_sound body (dict_set (p, xlo @ xhi) v d)"
proof -
  have "length (xlo @ xhi) div 2 = length xlo" using assms(2) by simp
  then have "take (length (xlo @ xhi) div 2) (xlo @ xhi) = xlo"
    "drop (length (xlo @ xhi) div 2) (xlo @ xhi) = xhi"
    by simp_all
  with assms(3) store_sound_filter [OF assms(1), of "\<lambda>kv. fst kv \<noteq> (p, xlo @ xhi)"]
  show ?thesis
    by (simp add: store_sound_def dict_set_def)
qed

lemma store_sound_lookup:
  assumes "store_sound body d" and "length xlo = length xhi"
    and "map_of d (p, xlo @ xhi) = Some v"
  shows "body p xlo xhi = Inr v"
proof -
  have len: "length (xlo @ xhi) div 2 = length xlo" using assms(2) by simp
  have ev: "even (length (xlo @ xhi))" using assms(2) by simp
  from assms(3) have "((p, xlo @ xhi), v) \<in> set d" by (rule map_of_SomeD)
  with assms(1) have "even (length (xlo @ xhi)) \<longrightarrow>
      body p (take (length (xlo @ xhi) div 2) (xlo @ xhi))
        (drop (length (xlo @ xhi) div 2) (xlo @ xhi)) = Inr v"
    by (auto simp: store_sound_def list_all_iff)
  with ev show ?thesis by (simp only: len) simp
qed


lemma modelCacher1d_sound:
  assumes "\<And>s p xlo xhi. fst (func s p xlo xhi) = body p xlo xhi"
    and "store_sound body (cache_store self)"
    and "length xlo = length xhi" and "cache_queue self \<noteq> []"
  shows "fst (modelCacher1d func self p xlo xhi) = body p xlo xhi"
    and "store_sound body (cache_store (fst (snd (modelCacher1d func self p xlo xhi))))"
proof -
  note f = assms(1) [of self p xlo xhi]
  show "fst (modelCacher1d func self p xlo xhi) = body p xlo xhi"
    using store_sound_lookup [OF assms(2,3), of p] assms(4) f
    by (auto simp: modelCacher1d_def Let_def split: option.splits sum.splits list.splits)
  show "store_sound body (cache_store (fst (snd (modelCacher1d func self p xlo xhi))))"
    using assms(2) store_sound_dict_set [OF store_sound_dict_pop [OF assms(2)] assms(3),
        of p] f
    by (auto simp: modelCacher1d_def Let_def split: option.splits sum.splits list.splits)
qed

lemma modelCacher1d_frame:
  "fst (snd (modelCacher1d func self p xlo xhi)) =
   self\<lparr>cache_queue := cache_queue (fst (snd (modelCacher1d func self p xlo xhi))),
        cache_store := cache_store (fst (snd (modelCacher1d func self p xlo xhi)))\<rparr>"
  by (auto simp: modelCacher1d_def Let_def split: option.splits sum.splits list.splits)

lemma modelCacher1d_miss:
  assumes "\<not> use_caching self \<or> map_of (cache_store self) (p, xlo @ xhi) = None"
    and "cache_queue self \<noteq> []"
  shows "fst (modelCacher1d func self p xlo xhi) = fst (func self p xlo xhi)"
    and "snd (snd (modelCacher1d func self p xlo xhi)) = snd (func self p xlo xhi)"
    and "par_ampl (fst (snd (modelCacher1d func self p xlo xhi))) = par_ampl self"
  using assms
  by (auto simp: modelCacher1d_def Let_def split: option.splits sum.splits list.splits)



lemma calc_ignores_instance:
  "InverseCompton_calc oz s = InverseCompton_calc oz s'"
  "Synchrotron_calc oz t = Synchrotron_calc oz t'"
  "PionDecay_calc oz u = PionDecay_calc oz u'"
  by (intro ext, simp add: InverseCompton_calc_def Synchrotron_calc_def PionDecay_calc_def)+



lemma store_sound_Nil [simp]: "store_sound body []"
  by (simp add: store_sound_def)





text \<open>
  The two readings of \<^verbatim>\<open>guess\<close> agree in their outcome and in the amplitude they
  leave: on every call that the store cannot answer, a fresh instance included, and on
  every call with equally long edges on a sound store.
\<close>

lemma InverseCompton_guess_cached_on_miss:
  assumes "\<not> use_caching self \<or>
           map_of (cache_store self) (map val (pars self), xlo @ xhi) = None"
    and "cache_queue self \<noteq> []"
  shows "outcome (InverseCompton_guess_cached oz self dep xlo xhi) =
         outcome (InverseCompton_guess oz self dep xlo xhi)"
    and "par_ampl (instance_after (InverseCompton_guess_cached oz self dep xlo xhi)) =
         par_ampl (instance_after (InverseCompton_guess oz self dep xlo xhi))"
  using modelCacher1d_miss [OF assms, of "InverseCompton_calc oz"]
  by (simp_all add: InverseCompton_guess_cached_def InverseCompton_guess_def InverseCompton_calc_cached_def Let_def
      outcome_def instance_after_def split: sum.splits)

lemma Synchrotron_guess_cached_on_miss:
  assumes "\<not> use_caching self \<or>
           map_of (cache_store self) (map val (Synchrotron_pars self), xlo @ xhi) = None"
    and "cache_queue self \<noteq> []"
  shows "outcome (Synchrotron_guess_cached oz self dep xlo xhi) =
         outcome (Synchrotron_guess oz self dep xlo xhi)"
    and "par_ampl (instance_after (Synchrotron_guess_cached oz self dep xlo xhi)) =
         par_ampl (instance_after (Synchrotron_guess oz self dep xlo xhi))"
  using modelCacher1d_miss [OF assms, of "Synchrotron_calc oz"]
  by (simp_all add: Synchrotron_guess_cached_def Synchrotron_guess_def Synchrotron_calc_cached_def Let_def
      outcome_def instance_after_def split: sum.splits)

lemma PionDecay_guess_cached_on_miss:
  assumes "\<not> use_caching self \<or>
           map_of (cache_store self) (map val (pars self), xlo @ xhi) = None"
    and "cache_queue self \<noteq> []"
  shows "outcome (PionDecay_guess_cached oz self dep xlo xhi) =
         outcome (PionDecay_guess oz self dep xlo xhi)"
    and "par_ampl (instance_after (PionDecay_guess_cached oz self dep xlo xhi)) =
         par_ampl (instance_after (PionDecay_guess oz self dep xlo xhi))"
  using modelCacher1d_miss [OF assms, of "PionDecay_calc oz"]
  by (simp_all add: PionDecay_guess_cached_def PionDecay_guess_def PionDecay_calc_cached_def Let_def
      outcome_def instance_after_def split: sum.splits)

lemma InverseCompton_guess_cached_agrees:
  assumes "store_sound (\<lambda>p xlo xhi. fst (InverseCompton_calc oz self p xlo xhi)) (cache_store self)"
    and "length xlo = length xhi" and "cache_queue self \<noteq> []"
  shows "outcome (InverseCompton_guess_cached oz self dep xlo xhi) =
         outcome (InverseCompton_guess oz self dep xlo xhi)"
    and "par_ampl (instance_after (InverseCompton_guess_cached oz self dep xlo xhi)) =
         par_ampl (instance_after (InverseCompton_guess oz self dep xlo xhi))"
proof -
  let ?r = "InverseCompton_calc_cached oz self (map val (pars self)) xlo xhi"
  have i: "fst (InverseCompton_calc oz s p xlo xhi) = fst (InverseCompton_calc oz self p xlo xhi)"
    for s :: arith_model and p xlo xhi
    by (simp only: calc_ignores_instance(1) [of oz s self])
  have f: "fst ?r = fst (InverseCompton_calc oz self (map val (pars self)) xlo xhi)"
    unfolding InverseCompton_calc_cached_def
    by (rule modelCacher1d_sound(1) [of "InverseCompton_calc oz"
          "\<lambda>p xlo xhi. fst (InverseCompton_calc oz self p xlo xhi)", OF i assms])
  obtain q d where st: "fst (snd ?r) = self\<lparr>cache_queue := q, cache_store := d\<rparr>"
    unfolding InverseCompton_calc_cached_def using modelCacher1d_frame by blast
  show "outcome (InverseCompton_guess_cached oz self dep xlo xhi) =
        outcome (InverseCompton_guess oz self dep xlo xhi)"
    and "par_ampl (instance_after (InverseCompton_guess_cached oz self dep xlo xhi)) =
         par_ampl (instance_after (InverseCompton_guess oz self dep xlo xhi))"
    by (simp_all add: InverseCompton_guess_cached_def InverseCompton_guess_def Let_def f st
        outcome_def instance_after_def split: sum.splits)
qed

lemma Synchrotron_guess_cached_agrees:
  assumes "store_sound (\<lambda>p xlo xhi. fst (Synchrotron_calc oz self p xlo xhi)) (cache_store self)"
    and "length xlo = length xhi" and "cache_queue self \<noteq> []"
  shows "outcome (Synchrotron_guess_cached oz self dep xlo xhi) =
         outcome (Synchrotron_guess oz self dep xlo xhi)"
    and "par_ampl (instance_after (Synchrotron_guess_cached oz self dep xlo xhi)) =
         par_ampl (instance_after (Synchrotron_guess oz self dep xlo xhi))"
proof -
  let ?r = "Synchrotron_calc_cached oz self (map val (Synchrotron_pars self)) xlo xhi"
  have i: "fst (Synchrotron_calc oz s p xlo xhi) = fst (Synchrotron_calc oz self p xlo xhi)"
    for s :: synchrotron and p xlo xhi
    by (simp only: calc_ignores_instance(2) [of oz s self])
  have f: "fst ?r = fst (Synchrotron_calc oz self (map val (Synchrotron_pars self)) xlo xhi)"
    unfolding Synchrotron_calc_cached_def
    by (rule modelCacher1d_sound(1) [of "Synchrotron_calc oz"
          "\<lambda>p xlo xhi. fst (Synchrotron_calc oz self p xlo xhi)", OF i assms])
  obtain q d where st: "fst (snd ?r) = self\<lparr>cache_queue := q, cache_store := d\<rparr>"
    unfolding Synchrotron_calc_cached_def using modelCacher1d_frame by blast
  show "outcome (Synchrotron_guess_cached oz self dep xlo xhi) =
        outcome (Synchrotron_guess oz self dep xlo xhi)"
    and "par_ampl (instance_after (Synchrotron_guess_cached oz self dep xlo xhi)) =
         par_ampl (instance_after (Synchrotron_guess oz self dep xlo xhi))"
    by (simp_all add: Synchrotron_guess_cached_def Synchrotron_guess_def Let_def f st
        outcome_def instance_after_def split: sum.splits)
qed

lemma PionDecay_guess_cached_agrees:
  assumes "store_sound (\<lambda>p xlo xhi. fst (PionDecay_calc oz self p xlo xhi)) (cache_store self)"
    and "length xlo = length xhi" and "cache_queue self \<noteq> []"
  shows "outcome (PionDecay_guess_cached oz self dep xlo xhi) =
         outcome (PionDecay_guess oz self dep xlo xhi)"
    and "par_ampl (instance_after (PionDecay_guess_cached oz self dep xlo xhi)) =
         par_ampl (instance_after (PionDecay_guess oz self dep xlo xhi))"
proof -
  let ?r = "PionDecay_calc_cached oz self (map val (pars self)) xlo xhi"
  have i: "fst (PionDecay_calc oz s p xlo xhi) = fst (PionDecay_calc oz self p xlo xhi)"
    for s :: arith_model and p xlo xhi
    by (simp only: calc_ignores_instance(3) [of oz s self])
  have f: "fst ?r = fst (PionDecay_calc oz self (map val (pars self)) xlo xhi)"
    unfolding PionDecay_calc_cached_def
    by (rule modelCacher1d_sound(1) [of "PionDecay_calc oz"
          "\<lambda>p xlo xhi. fst (PionDecay_calc oz self p xlo xhi)", OF i assms])
  obtain q d where st: "fst (snd ?r) = self\<lparr>cache_queue := q, cache_store := d\<rparr>"
    unfolding PionDecay_calc_cached_def using modelCacher1d_frame by blast
  show "outcome (PionDecay_guess_cached oz self dep xlo xhi) =
        outcome (PionDecay_guess oz self dep xlo xhi)"
    and "par_ampl (instance_after (PionDecay_guess_cached oz self dep xlo xhi)) =
         par_ampl (instance_after (PionDecay_guess oz self dep xlo xhi))"
    by (simp_all add: PionDecay_guess_cached_def PionDecay_guess_def Let_def f st
        outcome_def instance_after_def split: sum.splits)
qed


section \<open>The claims about the wrapped methods\<close>






end
